theory Spec2Isabelle
  imports Main "HOL-Library.Sublist" "HOL-Library.AList" "HOL-Library.Char_ord"
    "HOL-Library.List_Lexorder" "HOL-Library.Word"
begin

section \<open>The hook package: commands sent to the unit agent (src/hook/hook.go)\<close>

text \<open>
  A hook context talks to the unit agent through an RPC client. The model keeps the
  requests that were sent, in order, and takes the agent's answer to each request as a
  parameter of the context (\<open>jujucCall\<close>): \<open>Inl e\<close> is a failed call, \<open>Inr resp\<close> a
  response. The \<open>log.Printf\<close> of the request is not part of the model.
\<close>

record request =
  ContextId :: string
  Dir :: string
  CommandName :: string
  Args :: "string list"

record response =
  Code :: int
  Stdout :: string
  Stderr :: string

record hookContext =
  jujucContextId :: string
  RelationName :: string
  RelationId :: string
  RemoteUnit :: string
  jujucCall :: "request \<Rightarrow> string + response"

text \<open>\<open>strings.TrimSpace\<close>, on the ASCII white space characters.\<close>

definition isSpace :: "char \<Rightarrow> bool" where
  "isSpace c = (c \<in> {CHR '' '', CHR 0x09, CHR 0x0A, CHR 0x0B, CHR 0x0C, CHR 0x0D})"

definition TrimSpace :: "string \<Rightarrow> string" where
  "TrimSpace s = rev (dropWhile isSpace (rev (dropWhile isSpace s)))"

text \<open>
  \<open>ctxt.run\<close>: one request is sent; the result is the standard output of the command
  (\<open>Inr\<close>) or an error text (\<open>Inl\<close>). The second component is the list of requests sent
  so far.
\<close>

definition run :: "hookContext \<Rightarrow> string \<Rightarrow> string list \<Rightarrow> request list
    \<Rightarrow> (string + string) \<times> request list" where
  "run ctxt cmd args sent =
     (let req = \<lparr>ContextId = jujucContextId ctxt, Dir = ''/'', CommandName = cmd, Args = args\<rparr>
      in case jujucCall ctxt req of
           Inl e \<Rightarrow> (Inl (''cannot call jujuc.Main: '' @ e), sent @ [req])
         | Inr resp \<Rightarrow>
             if Code resp = 0 then (Inr (Stdout resp), sent @ [req])
             else let errText = TrimSpace (Stderr resp)
                  in (Inl (if prefix ''error: '' errText
                           then drop (length ''error: '') errText else errText),
                      sent @ [req]))"

text \<open>
  The loop of \<open>SetRelationWithId\<close> over the pairs: \<open>i\<close> advances by two, and
  \<open>keyvals[i]\<close>, \<open>keyvals[i+1]\<close> are formatted as \<open>key=value\<close>. The loop is only reached
  with an even number of elements, so the last equation stands for the end of the list.
\<close>

fun keyvalArgs :: "string list \<Rightarrow> string list" where
  "keyvalArgs (k # v # rest) = (k @ ''='' @ v) # keyvalArgs rest"
| "keyvalArgs _ = []"

text \<open>\<open>SetRelationWithId\<close>: the error (\<open>None\<close> is Go's nil) and the requests sent.\<close>

definition SetRelationWithId :: "hookContext \<Rightarrow> string \<Rightarrow> string list \<Rightarrow> request list
    \<Rightarrow> string option \<times> request list" where
  "SetRelationWithId ctxt relationId keyvals sent =
     (if length keyvals mod 2 \<noteq> 0 then (Some ''invalid key/value count'', sent)
      else if length keyvals = 0 then (None, sent)
      else let args = [''-r'', relationId, ''--''] @ keyvalArgs keyvals
           in case run ctxt ''relation-set'' args sent of
                (Inl e, sent') \<Rightarrow> (Some e, sent')
              | (Inr out, sent') \<Rightarrow> (None, sent'))"

definition SetRelation :: "hookContext \<Rightarrow> string list \<Rightarrow> request list
    \<Rightarrow> string option \<times> request list" where
  "SetRelation ctxt keyvals sent = SetRelationWithId ctxt (RelationId ctxt) keyvals sent"

section \<open>The gocharm command (src/cmd/gocharm/gocharm.go)\<close>

subsection \<open>Strings, paths and formatting\<close>

text \<open>
  Paths are strings, as in the source. \<open>filepath.Join\<close>, \<open>filepath.Split\<close> and
  \<open>filepath.Dir\<close> are modelled on clean paths (no \<open>.\<close> or \<open>..\<close> element, no doubled or
  trailing separator), on which \<open>filepath.Clean\<close> changes nothing: the results of
  \<open>filepath.Glob\<close> and of \<open>Join\<close> on them are such paths.
\<close>

definition filepath_Join :: "string \<Rightarrow> string \<Rightarrow> string" where
  "filepath_Join a b =
     (if a = [] then b else if b = [] then a
      else if last a = CHR ''/'' then a @ b else a @ ''/'' @ b)"

definition filepath_Split :: "string \<Rightarrow> string \<times> string" where
  "filepath_Split p =
     (let file = rev (takeWhile (\<lambda>c. c \<noteq> CHR ''/'') (rev p))
      in (take (length p - length file) p, file))"

definition filepath_Dir :: "string \<Rightarrow> string" where
  "filepath_Dir p =
     (let d = fst (filepath_Split p)
      in if d = [] then ''.'' else if d = ''/'' then ''/'' else butlast d)"

definition TrimPrefix :: "string \<Rightarrow> string \<Rightarrow> string" where
  "TrimPrefix s p = (if prefix p s then drop (length p) s else s)"

text \<open>The verb \<open>%d\<close> of \<open>fmt\<close>: an integer in decimal.\<close>

fun showNat :: "nat \<Rightarrow> string" where
  "showNat n = (if n < 10 then [''0123456789'' ! n]
                else showNat (n div 10) @ [''0123456789'' ! (n mod 10)])"

declare showNat.simps [simp del]

definition showInt :: "int \<Rightarrow> string" where
  "showInt i = (if i < 0 then ''-'' @ showNat (nat (- i)) else showNat (nat i))"

text \<open>
  The verb \<open>%q\<close> on a string without characters that need escaping: the string between
  double quotes.
\<close>

definition quote :: "string \<Rightarrow> string" where
  "quote s = CHR 0x22 # s @ [CHR 0x22]"

text \<open>
  Errors are their message texts. \<open>errors.Wrap\<close> keeps the message (and nil, which is
  \<open>None\<close>, stays nil); \<open>errors.Wrapf\<close> puts its own message before the cause.
\<close>

definition Wrap :: "string option \<Rightarrow> string option" where
  "Wrap err = err"

definition Wrapf :: "string \<Rightarrow> string \<Rightarrow> string" where
  "Wrapf e msg = msg @ '': '' @ e"

subsection \<open>The state of a run and the outside world\<close>

text \<open>
  A charm directory as \<open>charm.Dir\<close> holds it in memory: its path, the name of its
  metadata and its revision, a Go \<open>int\<close> (64 bits, with the wrap-around of Go's \<open>+\<close>).
\<close>

record charm_dir =
  Path :: string
  MetaName :: string
  Revision :: "64 word"

text \<open>The calls that change the file system or start a process, in the order made.\<close>

datatype event =
    MkdirAll string
  | WriteFile string string
  | Exec "string list" "string list"
  | RemoveAll string
  | WriteRevision string "64 word"

text \<open>
  The state of a run: the global \<open>exitCode\<close>, the lines written to the standard output
  and to the standard error, the revision file of each charm (by charm path), the
  contents of the files the run reads and writes, and the calls made so far.
\<close>

record world =
  exitCode :: int
  stdout :: "string list"
  stderr :: "string list"
  diskRevision :: "string \<Rightarrow> 64 word"
  files :: "string \<rightharpoonup> string"
  trace :: "event list"

datatype statResult = StatNotExist | StatError string | StatOk bool

record procResult =
  procStdout :: "string list"
  procStderr :: "string list"
  procErr :: "string option"

text \<open>
  What the run does not decide itself is a parameter: the environment of the process, the
  results of \<open>filepath.Glob\<close>, \<open>os.Stat\<close> (\<open>StatOk d\<close>: no error, \<open>d\<close> is \<open>IsDir\<close>) and
  \<open>fs.Walk\<close> (each step a path or an error), the metadata \<open>charm.ReadDir\<close> finds, whether
  \<open>os.MkdirAll\<close>, \<open>ioutil.WriteFile\<close> and the write of the revision file fail, what a
  started process prints and whether it fails, and \<open>errors.Info\<close>.

  Modelled from the spec: \<open>registeredHooks\<close> and the text of a hook stub are code of this
  program that is not in the source files at hand. \<open>registeredHooks\<close> is taken by its
  result, the hook names the charm registers (a Go \<open>map[string]bool\<close>, here an association
  list) or an error; \<open>stubContent\<close> is the generated content of a stub, "a deterministic
  template parameterized only by hook name and binary path".
\<close>

record sys =
  Environ :: "string list"
  Glob :: "string \<Rightarrow> string list"
  ReadMeta :: "string \<Rightarrow> string + string"
  Stat :: "string \<Rightarrow> statResult"
  Walk :: "string \<Rightarrow> (string + string) list"
  MkdirAllErr :: "string \<Rightarrow> string option"
  WriteFileErr :: "string \<Rightarrow> string option"
  RevisionWriteErr :: "string \<Rightarrow> string option"
  RunProc :: "string list \<Rightarrow> string list \<Rightarrow> procResult"
  errorsInfo :: "string \<Rightarrow> string"
  registeredHooks :: "charm_dir \<Rightarrow> string + (string \<times> bool) list"
  stubContent :: "string \<Rightarrow> string \<Rightarrow> string"

record flags =
  repo :: string
  test :: bool
  verbose :: bool

definition os_MkdirAll :: "sys \<Rightarrow> string \<Rightarrow> world \<Rightarrow> string option \<times> world" where
  "os_MkdirAll sys p w = (MkdirAllErr sys p, w\<lparr>trace := trace w @ [MkdirAll p]\<rparr>)"

definition ioutil_WriteFile :: "sys \<Rightarrow> string \<Rightarrow> string \<Rightarrow> world \<Rightarrow> string option \<times> world" where
  "ioutil_WriteFile sys p content w =
     (case WriteFileErr sys p of
        Some e \<Rightarrow> (Some e, w\<lparr>trace := trace w @ [WriteFile p content]\<rparr>)
      | None \<Rightarrow> (None, w\<lparr>files := (files w)(p \<mapsto> content),
                          trace := trace w @ [WriteFile p content]\<rparr>))"

definition os_RemoveAll :: "string \<Rightarrow> world \<Rightarrow> world" where
  "os_RemoveAll p w = w\<lparr>trace := trace w @ [RemoveAll p]\<rparr>"

text \<open>
  \<open>exec.Cmd.Run\<close> with \<open>Stdout\<close> and \<open>Stderr\<close> set to those of the run: what the process
  prints goes to the run's own streams.
\<close>

definition cmd_Run :: "sys \<Rightarrow> string list \<Rightarrow> string list \<Rightarrow> world \<Rightarrow> string option \<times> world" where
  "cmd_Run sys argv env w =
     (let r = RunProc sys argv env
      in (procErr r, w\<lparr>stdout := stdout w @ procStdout r,
                        stderr := stderr w @ procStderr r,
                        trace := trace w @ [Exec argv env]\<rparr>))"

text \<open>
  \<open>charm.ReadDir\<close> and \<open>Dir.SetDiskRevision\<close> belong to the charm library. \<open>ReadDir\<close> reads
  the metadata and the revision file. \<open>SetDiskRevision\<close> sets the revision in memory and
  then writes the revision file; when the write fails the file keeps its value.
\<close>

definition ReadDir :: "sys \<Rightarrow> world \<Rightarrow> string \<Rightarrow> string + charm_dir" where
  "ReadDir sys w path =
     (case ReadMeta sys path of
        Inl e \<Rightarrow> Inl e
      | Inr name \<Rightarrow> Inr \<lparr>Path = path, MetaName = name, Revision = diskRevision w path\<rparr>)"

definition SetDiskRevision :: "sys \<Rightarrow> charm_dir \<Rightarrow> 64 word \<Rightarrow> world
    \<Rightarrow> string option \<times> charm_dir \<times> world" where
  "SetDiskRevision sys dir revision w =
     (case RevisionWriteErr sys (Path dir) of
        Some e \<Rightarrow> (Some e, dir\<lparr>Revision := revision\<rparr>,
                   w\<lparr>trace := trace w @ [WriteRevision (Path dir) revision]\<rparr>)
      | None \<Rightarrow> (None, dir\<lparr>Revision := revision\<rparr>,
                 w\<lparr>diskRevision := (diskRevision w)(Path dir := revision),
                   trace := trace w @ [WriteRevision (Path dir) revision]\<rparr>))"

subsection \<open>Messages\<close>

text \<open>
  \<open>log.Printf\<close> writes to the standard error (its time stamp is left out);
  \<open>fmt.Printf\<close> writes a line to the standard output.
\<close>

definition log_Printf :: "string \<Rightarrow> world \<Rightarrow> world" where
  "log_Printf msg w = w\<lparr>stderr := stderr w @ [msg]\<rparr>"

definition fmt_Printf :: "string \<Rightarrow> world \<Rightarrow> world" where
  "fmt_Printf line w = w\<lparr>stdout := stdout w @ [line]\<rparr>"

definition warningf :: "string \<Rightarrow> world \<Rightarrow> world" where
  "warningf msg w = w\<lparr>stderr := stderr w @ [''gocharm: warning: '' @ msg]\<rparr>"

definition errorf :: "string \<Rightarrow> world \<Rightarrow> world" where
  "errorf msg w = w\<lparr>exitCode := 1, stderr := stderr w @ [''gocharm: '' @ msg]\<rparr>"

text \<open>\<open>fatalf\<close> ends the process: the result is the exit status and the final state.\<close>

definition fatalf :: "string \<Rightarrow> world \<Rightarrow> int \<times> world" where
  "fatalf msg w = (2, errorf msg w)"

subsection \<open>The build environment\<close>

text \<open>
  \<open>os.Getenv\<close> on the environment of the process: the value of the first entry of that
  name, the empty string when there is none.
\<close>

fun Getenv :: "string list \<Rightarrow> string \<Rightarrow> string" where
  "Getenv [] name = ''''"
| "Getenv (e # env) name =
     (if prefix (name @ ''='') e then drop (length name + 1) e else Getenv env name)"

text \<open>\<open>strings.Index(entry, "=")\<close>, which is -1 when there is no \<open>=\<close>.\<close>

definition IndexEq :: "string \<Rightarrow> int" where
  "IndexEq entry =
     (if CHR ''='' \<in> set entry then int (length (takeWhile (\<lambda>c. c \<noteq> CHR ''='') entry))
      else - 1)"

text \<open>
  The loop of \<open>setenv\<close>: the first entry that starts with the prefix is replaced; when
  there is none, the entry is appended.
\<close>

fun setenvLoop :: "string \<Rightarrow> string \<Rightarrow> string list \<Rightarrow> string list" where
  "setenvLoop pre entry [] = [entry]"
| "setenvLoop pre entry (e # env) =
     (if prefix pre e then entry # env else e # setenvLoop pre entry env)"

text \<open>\<open>setenv\<close>; \<open>None\<close> is its panic on an entry without \<open>=\<close>.\<close>

definition setenv :: "string list \<Rightarrow> string \<Rightarrow> string list option" where
  "setenv env entry =
     (let i = IndexEq entry
      in if i = - 1 then None
         else Some (setenvLoop (take (nat (i + 1)) entry) entry env))"

text \<open>The environment \<open>compile\<close> gives to the compiler.\<close>

definition compileEnv :: "sys \<Rightarrow> charm_dir \<Rightarrow> bool \<Rightarrow> string list option" where
  "compileEnv sys dir crossCompile =
     (case setenv (Environ sys)
             (''GOPATH='' @ Path dir @ '':'' @ Getenv (Environ sys) ''GOPATH'') of
        None \<Rightarrow> None
      | Some env \<Rightarrow>
          if crossCompile then
            (case setenv env ''CGOENABLED=false'' of
               None \<Rightarrow> None
             | Some env1 \<Rightarrow>
                 (case setenv env1 ''GOARCH=amd64'' of
                    None \<Rightarrow> None
                  | Some env2 \<Rightarrow> setenv env2 ''GOOS=linux''))
          else Some env)"

subsection \<open>Building and testing a charm\<close>

definition hookMainCode :: string where
  "hookMainCode = concat (map (\<lambda>l. l @ [CHR 0x0A])
     ['''',
      ''// This file is automatically generated. Do not edit.'',
      '''',
      ''package main'',
      ''import ('',
      CHR 0x09 # quote ''fmt'',
      CHR 0x09 # ''runhook '' @ quote ''runhook'',
      CHR 0x09 # quote ''launchpad.net/juju-utils/hook'',
      CHR 0x09 # quote ''os'',
      '')'',
      '''',
      ''func main() {'',
      CHR 0x09 # ''r := hook.NewRegistry()'',
      CHR 0x09 # ''runhook.RegisterHooks(r)'',
      CHR 0x09 # ''if err := hook.Main(r); err != nil {'',
      [CHR 0x09, CHR 0x09] @ ''fmt.Fprintf(os.Stderr, ''
        @ quote (''runhook: %v'' @ [CHR 0x5C, CHR ''n'']) @ '', err)'',
      [CHR 0x09, CHR 0x09] @ ''os.Exit(1)'',
      CHR 0x09 # ''}'',
      ''}''])"

text \<open>
  \<open>compile\<close>. The panic of \<open>setenv\<close> is the first branch; every entry \<open>compile\<close> sets
  has an \<open>=\<close>, so it is never taken (\<open>compileEnv_total\<close> below).
\<close>

definition compile :: "sys \<Rightarrow> charm_dir \<Rightarrow> string \<Rightarrow> string \<Rightarrow> bool \<Rightarrow> world
    \<Rightarrow> string option \<times> world" where
  "compile sys dir binaryName mainCode crossCompile w =
     (case compileEnv sys dir crossCompile of
        None \<Rightarrow> (Some ''panic: no = in environment entry'', w)
      | Some env \<Rightarrow>
          let mainDir =
                filepath_Join (filepath_Join (filepath_Join (Path dir) ''src'') ''_main'')
                  binaryName
          in case os_MkdirAll sys mainDir w of
               (Some e, w1) \<Rightarrow> (Some e, w1)
             | (None, w1) \<Rightarrow>
                 (case ioutil_WriteFile sys (filepath_Join mainDir ''main.go'') mainCode w1 of
                    (Some e, w2) \<Rightarrow> (Some e, w2)
                  | (None, w2) \<Rightarrow>
                      (case cmd_Run sys
                              [''go'', ''build'', ''-o'',
                               filepath_Join (filepath_Join (Path dir) ''bin'') binaryName,
                               ''_main/'' @ binaryName] env w2 of
                         (Some e, w3) \<Rightarrow> (Some (Wrapf e ''failed to build''), w3)
                       | (None, w3) \<Rightarrow> (None, w3))))"

text \<open>
  \<open>packagesInDir\<close>: the walk stops at the first error; otherwise the directories (below
  \<open>src\<close>) of the Go files found, each once, sorted.
\<close>

fun walkLoop :: "string \<Rightarrow> (string + string) list \<Rightarrow> string list \<Rightarrow> string + string list" where
  "walkLoop srcPrefix [] pkgs = Inr pkgs"
| "walkLoop srcPrefix (Inl e # steps) pkgs = Inl e"
| "walkLoop srcPrefix (Inr p # steps) pkgs =
     walkLoop srcPrefix steps
       (if suffix ''.go'' p \<and> prefix srcPrefix p
        then List.insert (TrimPrefix (fst (filepath_Split p)) srcPrefix) pkgs else pkgs)"

definition packagesInDir :: "sys \<Rightarrow> string \<Rightarrow> string + string list" where
  "packagesInDir sys dir =
     (case walkLoop (filepath_Join dir ''src'') (Walk sys dir) [] of
        Inl e \<Rightarrow> Inl e
      | Inr pkgs \<Rightarrow> Inr (sort pkgs))"

text \<open>\<open>run\<close> of gocharm.go: the command and the arguments it is given are not used.\<close>

definition run_cmd :: "sys \<Rightarrow> string list \<Rightarrow> string \<Rightarrow> string list \<Rightarrow> world
    \<Rightarrow> string option \<times> world" where
  "run_cmd sys env cmd args w =
     (case cmd_Run sys [''go'', ''test'', ''./...''] env w of (err, w1) \<Rightarrow> (Wrap err, w1))"

text \<open>
  The environment of \<open>testCharm\<close>: the format has three \<open>%s\<close> and two operands, so
  \<open>Sprintf\<close> ends the entry with \<open>%!s(MISSING)\<close>; the entry is appended.
\<close>

definition testEnv :: "sys \<Rightarrow> charm_dir \<Rightarrow> string list" where
  "testEnv sys dir =
     Environ sys @
       [''GOPATH='' @ Path dir @ '':'' @ Getenv (Environ sys) ''GOPATH'' @ '':''
          @ ''%!s(MISSING)'']"

definition testCharm :: "sys \<Rightarrow> charm_dir \<Rightarrow> world \<Rightarrow> string option \<times> world" where
  "testCharm sys dir w =
     (case packagesInDir sys (Path dir) of
        Inl e \<Rightarrow> (Some e, w)
      | Inr pkgs \<Rightarrow>
          (case run_cmd sys (testEnv sys dir) ''go'' (''test'' # pkgs) w of
             (err, w1) \<Rightarrow> (Wrap err, w1)))"

subsection \<open>Writing the hook stubs\<close>

text \<open>
  Modelled from the spec: \<open>writeHooks\<close> is not in the source files at hand. "For every
  hook name in the HookSet: compute the canonical generated stub content (a small script
  invoking the production binary, passing the hook name as context). If no stub file
  exists at the conventional path for that hook, write it. If one exists and its content
  exactly matches the canonical generated content, leave it. If one exists and differs,
  do not overwrite it: emit a warning naming the conflicting file and continue". The
  names are taken in sorted order ("deterministic ordering for any observable output
  (sorted)"); the stub of a hook is \<open>hooks/<name>\<close> in the charm, the binary
  \<open>bin/runhook\<close>. A write that fails is the error \<open>writeHooks\<close> returns, and ends it.
\<close>

definition hookPath :: "charm_dir \<Rightarrow> string \<Rightarrow> string" where
  "hookPath dir name = filepath_Join (filepath_Join (Path dir) ''hooks'') name"

definition conflictMessage :: "string \<Rightarrow> string" where
  "conflictMessage p = ''not overwriting modified hook file '' @ quote p"

definition writeHook :: "sys \<Rightarrow> charm_dir \<Rightarrow> string \<Rightarrow> world \<Rightarrow> string option \<times> world" where
  "writeHook sys dir name w =
     (let p = hookPath dir name;
          content =
            stubContent sys (filepath_Join (filepath_Join (Path dir) ''bin'') ''runhook'') name
      in case files w p of
           None \<Rightarrow> ioutil_WriteFile sys p content w
         | Some old \<Rightarrow>
             if old = content then (None, w) else (None, warningf (conflictMessage p) w))"

fun writeHooksLoop :: "sys \<Rightarrow> charm_dir \<Rightarrow> string list \<Rightarrow> world \<Rightarrow> string option \<times> world" where
  "writeHooksLoop sys dir [] w = (None, w)"
| "writeHooksLoop sys dir (name # names) w =
     (case writeHook sys dir name w of
        (Some e, w1) \<Rightarrow> (Some e, w1)
      | (None, w1) \<Rightarrow> writeHooksLoop sys dir names w1)"

definition hookNames :: "(string \<times> bool) list \<Rightarrow> string list" where
  "hookNames hooks = sort (remdups (map fst hooks))"

definition writeHooks :: "sys \<Rightarrow> charm_dir \<Rightarrow> (string \<times> bool) list \<Rightarrow> world
    \<Rightarrow> string option \<times> world" where
  "writeHooks sys dir hooks w = writeHooksLoop sys dir (hookNames hooks) w"

subsection \<open>One charm\<close>

text \<open>
  \<open>processGoCharm\<close> without its deferred call: the pair of \<open>doneSomething\<close> and the
  error, and the state. \<open>hooks["stop"] = true\<close> is the update of the association list.
\<close>

definition processGoCharmBody :: "sys \<Rightarrow> flags \<Rightarrow> charm_dir \<Rightarrow> world
    \<Rightarrow> (bool \<times> string option) \<times> world" where
  "processGoCharmBody sys fl dir w =
     (if test fl then
        (case testCharm sys dir w of (err, w1) \<Rightarrow> ((False, Wrap err), w1))
      else
        (case compile sys dir ''runhook'' hookMainCode True w of
           (Some e, w1) \<Rightarrow> ((False, Some (Wrapf e ''cannot build hooks main package'')), w1)
         | (None, w1) \<Rightarrow>
             (case Stat sys (filepath_Join (filepath_Join (Path dir) ''bin'') ''runhook'') of
                StatOk d \<Rightarrow>
                  (case registeredHooks sys dir of
                     Inl e \<Rightarrow> ((False, Some e), w1)
                   | Inr hooks \<Rightarrow>
                       (case writeHooks sys dir (AList.update ''stop'' True hooks) w1 of
                          (Some e, w2) \<Rightarrow>
                            ((False, Some (Wrapf e ''cannot write hooks to charm'')), w2)
                        | (None, w2) \<Rightarrow> ((True, None), w2)))
              | _ \<Rightarrow> ((False, Some ''runhook command not built''), w1))))"

text \<open>
  \<open>processGoCharm\<close>: the deferred \<open>os.RemoveAll\<close> of the \<open>pkg\<close> directory runs when the
  body returns.
\<close>

definition processGoCharm :: "sys \<Rightarrow> flags \<Rightarrow> charm_dir \<Rightarrow> world
    \<Rightarrow> (bool \<times> string option) \<times> world" where
  "processGoCharm sys fl dir w =
     (case processGoCharmBody sys fl dir w of
        (r, w1) \<Rightarrow> (r, os_RemoveAll (filepath_Join (Path dir) ''pkg'') w1))"

definition isGoCharm :: "sys \<Rightarrow> charm_dir \<Rightarrow> bool \<times> string option" where
  "isGoCharm sys dir =
     (case Stat sys (filepath_Join (Path dir) ''src/runhook'') of
        StatNotExist \<Rightarrow> (False, None)
      | StatError e \<Rightarrow> (False, Some e)
      | StatOk d \<Rightarrow> if \<not> d then (False, None) else (True, None))"

subsection \<open>The run\<close>

text \<open>The line \<open>main\<close> prints for a charm, and the body of its second loop.\<close>

definition successLine :: "charm_dir \<Rightarrow> string" where
  "successLine dir =
     ''local:'' @ snd (filepath_Split (filepath_Dir (Path dir))) @ ''/'' @ MetaName dir
       @ ''-'' @ showInt (sint (Revision dir))"

definition mainLoopBody :: "sys \<Rightarrow> flags \<Rightarrow> charm_dir \<Rightarrow> world \<Rightarrow> world" where
  "mainLoopBody sys fl dir w =
     (case isGoCharm sys dir of
        (isGo, Some e) \<Rightarrow>
          warningf (''cannot determine if '' @ quote (Path dir) @ '' is a Go charm: '' @ e) w
      | (isGo, None) \<Rightarrow>
          if \<not> isGo then
            (if verbose fl then log_Printf (''ignoring non-Go charm '' @ Path dir) w else w)
          else
            let w1 = (if verbose fl then log_Printf (''processing '' @ Path dir) w else w)
            in case processGoCharm sys fl dir w1 of
                 ((doneSomething, Some e), w2) \<Rightarrow>
                   errorf (''failed compile or test charm '' @ quote (Path dir) @ '': '' @ e)
                     (log_Printf (''error info: '' @ errorsInfo sys e) w2)
               | ((doneSomething, None), w2) \<Rightarrow>
                   if doneSomething then
                     (case SetDiskRevision sys dir (Revision dir + 1) w2 of
                        (err, dir', w3) \<Rightarrow>
                          fmt_Printf (successLine dir')
                            (case err of
                               Some e \<Rightarrow>
                                 errorf (''cannot bump revision on '' @ quote (Path dir')
                                           @ '': '' @ e) w3
                             | None \<Rightarrow> w3))
                   else w2)"

fun mainLoop :: "sys \<Rightarrow> flags \<Rightarrow> charm_dir list \<Rightarrow> world \<Rightarrow> world" where
  "mainLoop sys fl [] w = w"
| "mainLoop sys fl (dir # dirs) w = mainLoop sys fl dirs (mainLoopBody sys fl dir w)"

text \<open>The first loop of \<open>main\<close>: the charms that can be read, and the state.\<close>

fun readDirs :: "sys \<Rightarrow> string list \<Rightarrow> world \<Rightarrow> charm_dir list \<times> world" where
  "readDirs sys [] w = ([], w)"
| "readDirs sys (p # paths) w =
     (let path = filepath_Dir p
      in case ReadDir sys w path of
           Inl e \<Rightarrow> readDirs sys paths (errorf (''cannot read '' @ quote path @ '': '' @ e) w)
         | Inr dir \<Rightarrow> (case readDirs sys paths w of (dirs, w1) \<Rightarrow> (dir # dirs, w1)))"

text \<open>
  The repository that \<open>main\<close> uses, and the pattern it gives to \<open>filepath.Glob\<close>.
\<close>

definition repoDir :: "sys \<Rightarrow> flags \<Rightarrow> string" where
  "repoDir sys fl =
     (if repo fl = '''' then Getenv (Environ sys) ''JUJU_REPOSITORY'' else repo fl)"

definition charmPattern :: "string \<Rightarrow> string" where
  "charmPattern r =
     filepath_Join (filepath_Join (filepath_Join r ''*'') ''*'') ''metadata.yaml''"

text \<open>
  A run starts with \<open>exitCode\<close> 0, nothing printed and no call made, on the revision
  files and the files that are on disk.
\<close>

definition initial :: "(string \<Rightarrow> 64 word) \<Rightarrow> (string \<rightharpoonup> string) \<Rightarrow> world" where
  "initial revs fs =
     \<lparr>exitCode = 0, stdout = [], stderr = [], diskRevision = revs, files = fs, trace = []\<rparr>"

text \<open>\<open>main\<close>: the exit status of the process and the final state.\<close>

definition main :: "sys \<Rightarrow> flags \<Rightarrow> world \<Rightarrow> int \<times> world" where
  "main sys fl w =
     (if repoDir sys fl = '''' then fatalf ''no charm repo directory specified'' w
      else
        let paths = Glob sys (charmPattern (repoDir sys fl))
        in if length paths = 0 then fatalf ''no charms found'' w
           else (case readDirs sys paths w of
                   (dirs, w1) \<Rightarrow>
                     let w2 = mainLoop sys fl dirs w1 in (exitCode w2, w2)))"

subsection \<open>The stages of the pipeline, in the words of the specification\<close>

text \<open>
  The build of a charm completed: \<open>compile\<close> returned no error and the binary is there.
  The introspection completed: \<open>registeredHooks\<close> returned a hook set. The stub
  synchronization completed: \<open>writeHooks\<close>, on that set with \<open>stop\<close>, returned no error.
  The pipeline completed for a charm: it is a Go charm, gocharm was not asked to run the
  tests instead, and the three stages completed.
\<close>

definition buildCompleted :: "sys \<Rightarrow> charm_dir \<Rightarrow> world \<Rightarrow> bool" where
  "buildCompleted sys dir w =
     (fst (compile sys dir ''runhook'' hookMainCode True w) = None
      \<and> (case Stat sys (filepath_Join (filepath_Join (Path dir) ''bin'') ''runhook'') of
            StatOk d \<Rightarrow> True | _ \<Rightarrow> False))"

definition introspectionCompleted :: "sys \<Rightarrow> charm_dir \<Rightarrow> bool" where
  "introspectionCompleted sys dir =
     (case registeredHooks sys dir of Inr hooks \<Rightarrow> True | Inl e \<Rightarrow> False)"

definition stubSyncCompleted :: "sys \<Rightarrow> charm_dir \<Rightarrow> world \<Rightarrow> bool" where
  "stubSyncCompleted sys dir w =
     (case registeredHooks sys dir of
        Inr hooks \<Rightarrow>
          fst (writeHooks sys dir (AList.update ''stop'' True hooks)
                 (snd (compile sys dir ''runhook'' hookMainCode True w))) = None
      | Inl e \<Rightarrow> False)"

definition pipelineCompleted :: "sys \<Rightarrow> flags \<Rightarrow> charm_dir \<Rightarrow> world \<Rightarrow> bool" where
  "pipelineCompleted sys fl dir w =
     (isGoCharm sys dir = (True, None) \<and> \<not> test fl \<and> buildCompleted sys dir w
      \<and> introspectionCompleted sys dir \<and> stubSyncCompleted sys dir w)"

subsection \<open>Example inputs\<close>

definition exampleContext :: hookContext where
  "exampleContext =
     \<lparr>jujucContextId = ''ctx-1'', RelationName = ''db'', RelationId = ''db:0'',
      RemoteUnit = ''mysql/0'',
      jujucCall = (\<lambda>req. Inr \<lparr>Code = 0, Stdout = '''', Stderr = ''''\<rparr>)\<rparr>"

text \<open>
  A repository with one charm, \<open>precise/mysql\<close> at revision 7, whose hooks are written in
  Go and register \<open>config-changed\<close>; every call succeeds and the go tool prints nothing.
\<close>

definition exampleSys :: sys where
  "exampleSys =
     \<lparr>Environ = [''HOME=/home/dev'', ''GOPATH=/home/dev/go''],
      Glob = (\<lambda>pat. if pat = ''/srv/charms/*/*/metadata.yaml''
                     then [''/srv/charms/precise/mysql/metadata.yaml''] else []),
      ReadMeta = (\<lambda>p. Inr ''mysql''),
      Stat = (\<lambda>p. if p = ''/srv/charms/precise/mysql/src/runhook'' then StatOk True
                   else if p = ''/srv/charms/precise/mysql/bin/runhook'' then StatOk False
                   else StatNotExist),
      Walk = (\<lambda>p. []),
      MkdirAllErr = (\<lambda>p. None),
      WriteFileErr = (\<lambda>p. None),
      RevisionWriteErr = (\<lambda>p. None),
      RunProc = (\<lambda>argv env. \<lparr>procStdout = [], procStderr = [], procErr = None\<rparr>),
      errorsInfo = (\<lambda>e. e),
      registeredHooks = (\<lambda>dir. Inr [(''config-changed'', True)]),
      stubContent = (\<lambda>bin name. ''#!/bin/sh'' @ [CHR 0x0A] @ bin @ '' '' @ name @ [CHR 0x0A])\<rparr>"

definition exampleFlags :: flags where
  "exampleFlags = \<lparr>repo = ''/srv/charms'', test = False, verbose = False\<rparr>"

definition exampleDir :: charm_dir where
  "exampleDir = \<lparr>Path = ''/srv/charms/precise/mysql'', MetaName = ''mysql'', Revision = 7\<rparr>"

definition exampleWorld :: world where
  "exampleWorld = initial (\<lambda>p. 7) Map.empty"

text \<open>The same, with a revision file that cannot be written.\<close>

definition readOnlySys :: sys where
  "readOnlySys = exampleSys\<lparr>RevisionWriteErr := (\<lambda>p. Some ''permission denied'')\<rparr>"

text \<open>The same, where \<open>os.Stat\<close> fails with an error other than "does not exist".\<close>

definition deniedSys :: sys where
  "deniedSys = exampleSys\<lparr>Stat := (\<lambda>p. StatError ''permission denied'')\<rparr>"

text \<open>The same, where the charm has no \<open>src/runhook\<close>, and where no charm is found.\<close>

definition plainSys :: sys where
  "plainSys = exampleSys\<lparr>Stat := (\<lambda>p. StatNotExist)\<rparr>"

definition emptySys :: sys where
  "emptySys = exampleSys\<lparr>Glob := (\<lambda>pat. [])\<rparr>"

text \<open>The same, with a \<open>stop\<close> stub that the charm author has changed.\<close>

definition customStop :: string where
  "customStop = ''#!/bin/sh'' @ [CHR 0x0A] @ ''service mysql stop'' @ [CHR 0x0A]"

definition conflictWorld :: world where
  "conflictWorld =
     initial (\<lambda>p. 7) [''/srv/charms/precise/mysql/hooks/stop'' \<mapsto> customStop]"

text \<open>Lines that the processes started by the run printed on their standard output.\<close>

definition fromTool :: "sys \<Rightarrow> string list \<Rightarrow> bool" where
  "fromTool sys ls = (\<forall>l \<in> set ls. \<exists>argv env. l \<in> set (procStdout (RunProc sys argv env)))"

text \<open>The example with the flag \<open>-test\<close>, and with a go tool whose test run fails.\<close>

definition testFlags :: flags where
  "testFlags = exampleFlags\<lparr>test := True\<rparr>"

definition failingTestSys :: sys where
  "failingTestSys = exampleSys\<lparr>RunProc := (\<lambda>argv env.
      \<lparr>procStdout = [''FAIL runhook 0.004s''], procStderr = [],
       procErr = Some ''exit status 1''\<rparr>)\<rparr>"

section \<open>Properties of the hook package\<close>

lemma run_sent: "snd (run ctxt cmd args sent) =
    sent @ [\<lparr>ContextId = jujucContextId ctxt, Dir = ''/'', CommandName = cmd, Args = args\<rparr>]"
  by (simp add: run_def Let_def split: sum.splits)

lemma keyvalArgs_length: "even (length kvs) \<Longrightarrow> 2 * length (keyvalArgs kvs) = length kvs"
  by (induction kvs rule: keyvalArgs.induct) auto

lemma keyvalArgs_nth:
  "even (length kvs) \<Longrightarrow> i < length (keyvalArgs kvs) \<Longrightarrow>
     keyvalArgs kvs ! i = kvs ! (2 * i) @ ''='' @ kvs ! (2 * i + 1)"
proof (induction kvs arbitrary: i rule: keyvalArgs.induct)
  case (1 k v rest)
  show ?case
  proof (cases i)
    case 0
    then show ?thesis by simp
  next
    case (Suc j)
    with 1 show ?thesis by simp
  qed
qed simp_all

text \<open>
  C10. \<open>SetRelationWithId\<close> with an odd number of key/value arguments returns an error
  and sends no request; with no argument it returns nil and sends no request; with an
  even, non-empty list it sends exactly one request, whose command is \<open>relation-set\<close> and
  whose arguments are \<open>-r\<close>, the relation id, \<open>--\<close> and then one \<open>key=value\<close> per pair, in
  the order of the arguments.
\<close>

theorem SetRelationWithId_requests:
  "(odd (length keyvals) \<longrightarrow>
      SetRelationWithId ctxt relationId keyvals sent = (Some ''invalid key/value count'', sent))
   \<and> (keyvals = [] \<longrightarrow> SetRelationWithId ctxt relationId keyvals sent = (None, sent))
   \<and> (even (length keyvals) \<and> keyvals \<noteq> [] \<longrightarrow>
        snd (SetRelationWithId ctxt relationId keyvals sent) =
          sent @ [\<lparr>ContextId = jujucContextId ctxt, Dir = ''/'',
                    CommandName = ''relation-set'',
                    Args = [''-r'', relationId, ''--''] @ keyvalArgs keyvals\<rparr>]
        \<and> 2 * length (keyvalArgs keyvals) = length keyvals
        \<and> (\<forall>i < length (keyvalArgs keyvals).
              keyvalArgs keyvals ! i = keyvals ! (2 * i) @ ''='' @ keyvals ! (2 * i + 1)))"
proof (intro conjI impI)
  assume "odd (length keyvals)"
  then have "length keyvals mod 2 \<noteq> 0" by presburger
  then show "SetRelationWithId ctxt relationId keyvals sent = (Some ''invalid key/value count'', sent)"
    by (simp add: SetRelationWithId_def)
next
  assume "keyvals = []"
  then show "SetRelationWithId ctxt relationId keyvals sent = (None, sent)"
    by (simp add: SetRelationWithId_def)
next
  assume a: "even (length keyvals) \<and> keyvals \<noteq> []"
  then have m: "length keyvals mod 2 = 0" by presburger
  let ?args = "[''-r'', relationId, ''--''] @ keyvalArgs keyvals"
  have "snd (SetRelationWithId ctxt relationId keyvals sent) =
          snd (run ctxt ''relation-set'' ?args sent)"
    using a m by (simp add: SetRelationWithId_def Let_def split: prod.splits sum.splits)
  then show "snd (SetRelationWithId ctxt relationId keyvals sent) =
          sent @ [\<lparr>ContextId = jujucContextId ctxt, Dir = ''/'',
                    CommandName = ''relation-set'', Args = ?args\<rparr>]"
    by (simp only: run_sent)
next
  assume "even (length keyvals) \<and> keyvals \<noteq> []"
  then show "2 * length (keyvalArgs keyvals) = length keyvals"
    by (simp add: keyvalArgs_length)
next
  assume "even (length keyvals) \<and> keyvals \<noteq> []"
  then show "\<forall>i < length (keyvalArgs keyvals).
      keyvalArgs keyvals ! i = keyvals ! (2 * i) @ ''='' @ keyvals ! (2 * i + 1)"
    by (simp add: keyvalArgs_nth)
qed

theorem SetRelationWithId_requests_witness:
  "snd (SetRelationWithId exampleContext ''db:0'' [''host'', ''10.0.0.1'', ''port'', ''3306''] [])
     = [\<lparr>ContextId = ''ctx-1'', Dir = ''/'', CommandName = ''relation-set'',
          Args = [''-r'', ''db:0'', ''--'', ''host=10.0.0.1'', ''port=3306'']\<rparr>]
   \<and> SetRelationWithId exampleContext ''db:0'' [''host''] []
     = (Some ''invalid key/value count'', [])
   \<and> SetRelationWithId exampleContext ''db:0'' [] [] = (None, [])"
  using SetRelationWithId_requests [of "[''host'', ''10.0.0.1'', ''port'', ''3306'']"
          exampleContext "''db:0''" "[]"]
    SetRelationWithId_requests [of "[''host'']" exampleContext "''db:0''" "[]"]
    SetRelationWithId_requests [of "[]" exampleContext "''db:0''" "[]"]
  by (simp add: exampleContext_def)

section \<open>Properties of gocharm\<close>

subsection \<open>Lemmas on the stages\<close>

lemmas prims = os_MkdirAll_def ioutil_WriteFile_def cmd_Run_def os_RemoveAll_def
  log_Printf_def fmt_Printf_def warningf_def errorf_def Wrap_def

lemma compile_frame:
  assumes "compile sys dir b c x w = (r, w')"
  shows "exitCode w' = exitCode w" and "diskRevision w' = diskRevision w"
    and "\<exists>tr. trace w' = trace w @ tr"
  using assms
  by (auto simp: compile_def prims Let_def split: option.splits prod.splits)

lemma writeHook_frame:
  assumes "writeHook sys dir n w = (r, w')"
  shows "exitCode w' = exitCode w" and "diskRevision w' = diskRevision w"
    and "stdout w' = stdout w" and "\<exists>tr. trace w' = trace w @ tr"
  using assms
  by (auto simp: writeHook_def prims Let_def split: option.splits prod.splits if_splits)

lemma writeHooksLoop_frame:
  "writeHooksLoop sys dir ns w = (r, w') \<Longrightarrow>
     exitCode w' = exitCode w \<and> diskRevision w' = diskRevision w \<and> stdout w' = stdout w
     \<and> (\<exists>tr. trace w' = trace w @ tr)"
proof (induction ns arbitrary: w)
  case Nil
  then show ?case by simp
next
  case (Cons n ns)
  obtain r1 w1 where h: "writeHook sys dir n w = (r1, w1)" by (cases "writeHook sys dir n w")
  note f = writeHook_frame [OF h]
  show ?case
  proof (cases r1)
    case None
    then have "writeHooksLoop sys dir ns w1 = (r, w')" using h Cons.prems by simp
    from Cons.IH [OF this] f show ?thesis by auto
  next
    case (Some e)
    then show ?thesis using h f Cons.prems by auto
  qed
qed

lemma writeHooks_frame:
  assumes "writeHooks sys dir hooks w = (r, w')"
  shows "exitCode w' = exitCode w" and "diskRevision w' = diskRevision w"
    and "stdout w' = stdout w" and "\<exists>tr. trace w' = trace w @ tr"
  using writeHooksLoop_frame [of sys dir "hookNames hooks" w r w'] assms
  by (simp_all add: writeHooks_def)

lemma testCharm_frame:
  assumes "testCharm sys dir w = (r, w')"
  shows "exitCode w' = exitCode w" and "diskRevision w' = diskRevision w"
    and "files w' = files w" and "\<exists>tr. trace w' = trace w @ tr"
  using assms
  by (auto simp: testCharm_def run_cmd_def prims Let_def split: option.splits prod.splits sum.splits)

lemma processGoCharmBody_frame:
  assumes "processGoCharmBody sys fl dir w = (r, w')"
  shows "exitCode w' = exitCode w \<and> diskRevision w' = diskRevision w
         \<and> (\<exists>tr. trace w' = trace w @ tr)"
proof (cases "test fl")
  case True
  obtain e w1 where t: "testCharm sys dir w = (e, w1)" by (cases "testCharm sys dir w")
  have "w' = w1" using True t assms by (simp add: processGoCharmBody_def)
  then show ?thesis using testCharm_frame [OF t] by simp
next
  case False
  obtain e w1 where c: "compile sys dir ''runhook'' hookMainCode True w = (e, w1)"
    by (cases "compile sys dir ''runhook'' hookMainCode True w")
  note f = compile_frame [OF c]
  show ?thesis
  proof (cases "\<exists>hooks d. e = None \<and> registeredHooks sys dir = Inr hooks
      \<and> Stat sys (filepath_Join (filepath_Join (Path dir) ''bin'') ''runhook'') = StatOk d")
    case True
    then obtain hooks d where h: "e = None" "registeredHooks sys dir = Inr hooks"
      "Stat sys (filepath_Join (filepath_Join (Path dir) ''bin'') ''runhook'') = StatOk d"
      by blast
    obtain e2 w2 where wh: "writeHooks sys dir (AList.update ''stop'' True hooks) w1 = (e2, w2)"
      by (cases "writeHooks sys dir (AList.update ''stop'' True hooks) w1")
    have "w' = w2" using False c h wh assms
      by (auto simp: processGoCharmBody_def split: option.splits)
    then show ?thesis using writeHooks_frame [OF wh] f by auto
  next
    case no: False
    have "w' = w1" using False c no assms
      by (auto simp: processGoCharmBody_def
            split: option.splits statResult.splits sum.splits prod.splits)
    then show ?thesis using f by simp
  qed
qed

lemma processGoCharm_frame:
  assumes "processGoCharm sys fl dir w = (r, w')"
  shows "exitCode w' = exitCode w" and "diskRevision w' = diskRevision w"
  using assms processGoCharmBody_frame [of sys fl dir w]
  by (auto simp: processGoCharm_def os_RemoveAll_def split: prod.splits)

lemma processGoCharm_result:
  "fst (processGoCharm sys fl dir w) = fst (processGoCharmBody sys fl dir w)"
  by (simp add: processGoCharm_def split: prod.splits)

lemma processGoCharmBody_done:
  "fst (fst (processGoCharmBody sys fl dir w)) \<longleftrightarrow>
     \<not> test fl \<and> buildCompleted sys dir w \<and> introspectionCompleted sys dir
       \<and> stubSyncCompleted sys dir w"
  "fst (fst (processGoCharmBody sys fl dir w)) \<Longrightarrow> snd (fst (processGoCharmBody sys fl dir w)) = None"
  by (cases "test fl";
      auto simp: processGoCharmBody_def buildCompleted_def introspectionCompleted_def
        stubSyncCompleted_def
      split: option.splits prod.splits statResult.splits sum.splits)+

lemma processGoCharm_done:
  "fst (processGoCharm sys fl dir w) = (True, None) \<longleftrightarrow>
     \<not> test fl \<and> buildCompleted sys dir w \<and> introspectionCompleted sys dir
       \<and> stubSyncCompleted sys dir w"
  "fst (fst (processGoCharm sys fl dir w)) \<longleftrightarrow> fst (processGoCharm sys fl dir w) = (True, None)"
  using processGoCharmBody_done [of sys fl dir w]
  by (auto simp: processGoCharm_result prod_eq_iff)

lemma writeHook_files_only:
  "files w = files v \<Longrightarrow>
     fst (writeHook sys dir n w) = fst (writeHook sys dir n v)
     \<and> files (snd (writeHook sys dir n w)) = files (snd (writeHook sys dir n v))"
  by (auto simp: writeHook_def prims Let_def split: option.splits)

lemma writeHooksLoop_files_only:
  "files w = files v \<Longrightarrow>
     fst (writeHooksLoop sys dir ns w) = fst (writeHooksLoop sys dir ns v)"
proof (induction ns arbitrary: w v)
  case Nil
  then show ?case by simp
next
  case (Cons n ns)
  obtain r1 w1 where a: "writeHook sys dir n w = (r1, w1)" by (cases "writeHook sys dir n w")
  obtain r2 v1 where b: "writeHook sys dir n v = (r2, v1)" by (cases "writeHook sys dir n v")
  have "r1 = r2" "files w1 = files v1"
    using writeHook_files_only [OF Cons.prems, of sys dir n] a b by simp_all
  then show ?case using a b Cons.IH [of w1 v1] by (cases r1) auto
qed

lemma compile_files_only:
  "files w = files v \<Longrightarrow>
     fst (compile sys dir b c x w) = fst (compile sys dir b c x v)
     \<and> files (snd (compile sys dir b c x w)) = files (snd (compile sys dir b c x v))"
  by (auto simp: compile_def prims Let_def split: option.splits prod.splits)

lemma pipelineCompleted_files_only:
  assumes "files w = files v"
  shows "pipelineCompleted sys fl dir w = pipelineCompleted sys fl dir v"
proof -
  note c = compile_files_only [OF assms, of sys dir "''runhook''" hookMainCode True]
  have "stubSyncCompleted sys dir w = stubSyncCompleted sys dir v"
    using c writeHooksLoop_files_only [of "snd (compile sys dir ''runhook'' hookMainCode True w)"
        "snd (compile sys dir ''runhook'' hookMainCode True v)" sys dir]
    by (simp add: stubSyncCompleted_def writeHooks_def split: sum.splits)
  moreover have "buildCompleted sys dir w = buildCompleted sys dir v"
    using c by (simp add: buildCompleted_def)
  ultimately show ?thesis by (simp add: pipelineCompleted_def)
qed

lemma mainLoopBody_diskRevision:
  "diskRevision (mainLoopBody sys fl dir w) =
     (if pipelineCompleted sys fl dir w \<and> RevisionWriteErr sys (Path dir) = None
      then (diskRevision w)(Path dir := Revision dir + 1) else diskRevision w)"
proof -
  let ?w1 = "if verbose fl then log_Printf (''processing '' @ Path dir) w else w"
  have f1: "files ?w1 = files w" "diskRevision ?w1 = diskRevision w"
    by (simp_all add: log_Printf_def)
  have p: "pipelineCompleted sys fl dir ?w1 = pipelineCompleted sys fl dir w"
    by (rule pipelineCompleted_files_only) (simp add: f1)
  obtain r w2 where g: "processGoCharm sys fl dir ?w1 = (r, w2)"
    by (cases "processGoCharm sys fl dir ?w1")
  have d: "diskRevision w2 = diskRevision w"
    using processGoCharm_frame(2) [OF g] f1 by simp
  have "pipelineCompleted sys fl dir ?w1 \<longleftrightarrow> isGoCharm sys dir = (True, None) \<and> r = (True, None)"
    using processGoCharm_done(1) [of sys fl dir ?w1] g
    by (simp add: pipelineCompleted_def)
  then have pc: "pipelineCompleted sys fl dir w \<longleftrightarrow>
      isGoCharm sys dir = (True, None) \<and> r = (True, None)"
    using p by simp
  have rb: "fst r \<longleftrightarrow> r = (True, None)"
    using processGoCharm_done(2) [of sys fl dir ?w1] g by simp
  show ?thesis
  proof (cases "isGoCharm sys dir = (True, None)")
    case False
    then have "diskRevision (mainLoopBody sys fl dir w) = diskRevision w"
      by (auto simp: mainLoopBody_def isGoCharm_def prims split: statResult.splits)
    then show ?thesis using False pc by simp
  next
    case True
    show ?thesis
    proof (cases "r = (True, None)")
      case yes: True
      have "diskRevision (mainLoopBody sys fl dir w) =
          (if RevisionWriteErr sys (Path dir) = None
           then (diskRevision w)(Path dir := Revision dir + 1) else diskRevision w)"
        using True yes g d
        by (auto simp: mainLoopBody_def Let_def SetDiskRevision_def prims
              split: option.splits)
      then show ?thesis using True yes pc by simp
    next
      case no: False
      obtain b e where re: "r = (b, e)" by (cases r)
      have nb: "\<not> b" using no rb re by auto
      have "diskRevision (mainLoopBody sys fl dir w) = diskRevision w"
        using True g d re nb
        by (auto simp: mainLoopBody_def Let_def prims split: option.splits)
      then show ?thesis using no pc by simp
    qed
  qed
qed

lemma hookNames_set: "set (hookNames hooks) = fst ` set hooks"
  by (simp add: hookNames_def)

lemma writeHook_files_mono:
  "writeHook sys dir n w = (r, w') \<Longrightarrow> files w p = Some c \<Longrightarrow> files w' p = Some c"
  by (auto simp: writeHook_def prims Let_def split: option.splits if_splits)

lemma writeHook_written:
  "writeHook sys dir n w = (None, w') \<Longrightarrow> files w' (hookPath dir n) \<noteq> None"
  by (auto simp: writeHook_def prims Let_def split: option.splits if_splits)

lemma writeHooksLoop_files_mono:
  "writeHooksLoop sys dir ns w = (r, w') \<Longrightarrow> files w p = Some c \<Longrightarrow> files w' p = Some c"
proof (induction ns arbitrary: w)
  case Nil
  then show ?case by simp
next
  case (Cons n ns)
  obtain r1 w1 where h: "writeHook sys dir n w = (r1, w1)" by (cases "writeHook sys dir n w")
  have f: "files w1 p = Some c" using writeHook_files_mono [OF h Cons.prems(2)] .
  show ?case
  proof (cases r1)
    case None
    then have "writeHooksLoop sys dir ns w1 = (r, w')" using h Cons.prems by simp
    from Cons.IH [OF this f] show ?thesis .
  next
    case (Some e)
    then show ?thesis using h f Cons.prems by auto
  qed
qed

lemma writeHooksLoop_written:
  "writeHooksLoop sys dir ns w = (None, w') \<Longrightarrow> n \<in> set ns \<Longrightarrow>
     files w' (hookPath dir n) \<noteq> None"
proof (induction ns arbitrary: w)
  case Nil
  then show ?case by simp
next
  case (Cons m ns)
  obtain r1 w1 where h: "writeHook sys dir m w = (r1, w1)" by (cases "writeHook sys dir m w")
  have r1: "r1 = None" using h Cons.prems(1) by (cases r1) auto
  then have l: "writeHooksLoop sys dir ns w1 = (None, w')" using h Cons.prems(1) by simp
  show ?case
  proof (cases "n = m")
    case True
    then obtain c where "files w1 (hookPath dir n) = Some c"
      using writeHook_written [of sys dir m w w1] h r1 by auto
    from writeHooksLoop_files_mono [OF l this] show ?thesis by simp
  next
    case False
    then have "n \<in> set ns" using Cons.prems(2) by simp
    from Cons.IH [OF l this] show ?thesis .
  qed
qed

lemma mainLoopBody_exitCode:
  "exitCode (mainLoopBody sys fl dir w) = exitCode w \<or> exitCode (mainLoopBody sys fl dir w) = 1"
proof -
  let ?w1 = "if verbose fl then log_Printf (''processing '' @ Path dir) w else w"
  obtain r w2 where g: "processGoCharm sys fl dir ?w1 = (r, w2)"
    by (cases "processGoCharm sys fl dir ?w1")
  have "exitCode w2 = exitCode w"
    using processGoCharm_frame(1) [OF g] by (simp add: log_Printf_def)
  then show ?thesis using g
    by (auto simp: mainLoopBody_def Let_def SetDiskRevision_def prims
          split: option.splits prod.splits)
qed

lemma mainLoop_exitCode:
  "exitCode w \<in> {0, 1} \<Longrightarrow> exitCode (mainLoop sys fl dirs w) \<in> {0, 1}"
proof (induction dirs arbitrary: w)
  case Nil
  then show ?case by simp
next
  case (Cons d dirs)
  have "exitCode (mainLoopBody sys fl d w) \<in> {0, 1}"
    using mainLoopBody_exitCode [of sys fl d w] Cons.prems by auto
  from Cons.IH [OF this] show ?case by simp
qed

lemma readDirs_exitCode:
  "exitCode w \<in> {0, 1} \<Longrightarrow> exitCode (snd (readDirs sys paths w)) \<in> {0, 1}"
proof (induction paths arbitrary: w)
  case Nil
  then show ?case by simp
next
  case (Cons p paths)
  show ?case
  proof (cases "ReadDir sys w (filepath_Dir p)")
    case (Inl e)
    have "exitCode (errorf (''cannot read '' @ quote (filepath_Dir p) @ '': '' @ e) w) \<in> {0, 1}"
      by (simp add: errorf_def)
    from Cons.IH [OF this] show ?thesis using Inl by (simp add: Let_def)
  next
    case (Inr dir)
    then show ?thesis using Cons.IH [OF Cons.prems] by (auto simp: Let_def split: prod.splits)
  qed
qed

lemma fromTool_simps [simp]:
  "fromTool sys []" "fromTool sys (procStdout (RunProc sys argv env))"
  by (auto simp: fromTool_def)

lemma compile_stdout:
  assumes "compile sys dir b c x w = (r, w')"
  shows "\<exists>tool. stdout w' = stdout w @ tool \<and> fromTool sys tool"
  using assms
  by (auto simp: compile_def prims Let_def split: option.splits prod.splits)

lemma testCharm_stdout:
  assumes "testCharm sys dir w = (r, w')"
  shows "\<exists>tool. stdout w' = stdout w @ tool \<and> fromTool sys tool"
  using assms
  by (auto simp: testCharm_def run_cmd_def prims Let_def
        split: option.splits prod.splits sum.splits)

lemma processGoCharm_stdout:
  assumes "processGoCharm sys fl dir w = (r, w')"
  shows "\<exists>tool. stdout w' = stdout w @ tool \<and> fromTool sys tool"
proof -
  obtain w0 where b: "processGoCharmBody sys fl dir w = (r, w0)"
    and w': "w' = os_RemoveAll (filepath_Join (Path dir) ''pkg'') w0"
    using assms by (auto simp: processGoCharm_def split: prod.splits)
  have "\<exists>tool. stdout w0 = stdout w @ tool \<and> fromTool sys tool"
  proof (cases "test fl")
    case True
    obtain e w1 where t: "testCharm sys dir w = (e, w1)" by (cases "testCharm sys dir w")
    have "w0 = w1" using True t b by (simp add: processGoCharmBody_def)
    then show ?thesis using testCharm_stdout [OF t] by simp
  next
    case False
    obtain e w1 where c: "compile sys dir ''runhook'' hookMainCode True w = (e, w1)"
      by (cases "compile sys dir ''runhook'' hookMainCode True w")
    note f = compile_stdout [OF c]
    show ?thesis
    proof (cases "\<exists>hooks d. e = None \<and> registeredHooks sys dir = Inr hooks
        \<and> Stat sys (filepath_Join (filepath_Join (Path dir) ''bin'') ''runhook'') = StatOk d")
      case True
      then obtain hooks d where h: "e = None" "registeredHooks sys dir = Inr hooks"
        "Stat sys (filepath_Join (filepath_Join (Path dir) ''bin'') ''runhook'') = StatOk d"
        by blast
      obtain e2 w2 where wh: "writeHooks sys dir (AList.update ''stop'' True hooks) w1 = (e2, w2)"
        by (cases "writeHooks sys dir (AList.update ''stop'' True hooks) w1")
      have "w0 = w2" using False c h wh b
        by (auto simp: processGoCharmBody_def split: option.splits)
      then show ?thesis using writeHooks_frame(3) [OF wh] f by auto
    next
      case no: False
      have "w0 = w1" using False c no b
        by (auto simp: processGoCharmBody_def
              split: option.splits statResult.splits sum.splits prod.splits)
      then show ?thesis using f by simp
    qed
  qed
  then show ?thesis using w' by (simp add: os_RemoveAll_def)
qed

lemma mainLoopBody_stdout:
  "\<exists>tool. stdout (mainLoopBody sys fl dir w) =
       stdout w @ tool @
         (if pipelineCompleted sys fl dir w
          then [successLine (dir\<lparr>Revision := Revision dir + 1\<rparr>)] else [])
     \<and> fromTool sys tool \<and> (isGoCharm sys dir \<noteq> (True, None) \<longrightarrow> tool = [])"
proof -
  let ?w1 = "if verbose fl then log_Printf (''processing '' @ Path dir) w else w"
  have f1: "files ?w1 = files w" "stdout ?w1 = stdout w"
    by (simp_all add: log_Printf_def)
  have p: "pipelineCompleted sys fl dir ?w1 = pipelineCompleted sys fl dir w"
    by (rule pipelineCompleted_files_only) (simp add: f1)
  obtain r w2 where g: "processGoCharm sys fl dir ?w1 = (r, w2)"
    by (cases "processGoCharm sys fl dir ?w1")
  from processGoCharm_stdout [OF g] obtain tool
    where tool: "stdout w2 = stdout w @ tool" "fromTool sys tool" using f1 by auto
  have "pipelineCompleted sys fl dir ?w1 \<longleftrightarrow> isGoCharm sys dir = (True, None) \<and> r = (True, None)"
    using processGoCharm_done(1) [of sys fl dir ?w1] g
    by (simp add: pipelineCompleted_def)
  then have pc: "pipelineCompleted sys fl dir w \<longleftrightarrow>
      isGoCharm sys dir = (True, None) \<and> r = (True, None)"
    using p by simp
  have rb: "fst r \<longleftrightarrow> r = (True, None)"
    using processGoCharm_done(2) [of sys fl dir ?w1] g by simp
  show ?thesis
  proof (cases "isGoCharm sys dir = (True, None)")
    case False
    then have "stdout (mainLoopBody sys fl dir w) = stdout w"
      by (auto simp: mainLoopBody_def isGoCharm_def prims split: statResult.splits)
    then show ?thesis using False pc by (intro exI [of _ "[]"]) simp
  next
    case True
    show ?thesis
    proof (cases "r = (True, None)")
      case yes: True
      have "stdout (mainLoopBody sys fl dir w) =
          stdout w @ tool @ [successLine (dir\<lparr>Revision := Revision dir + 1\<rparr>)]"
        using True yes g tool
        by (auto simp: mainLoopBody_def Let_def SetDiskRevision_def prims
              split: option.splits)
      then show ?thesis using True yes pc tool by auto
    next
      case no: False
      obtain b e where re: "r = (b, e)" by (cases r)
      have nb: "\<not> b" using no rb re by auto
      have "stdout (mainLoopBody sys fl dir w) = stdout w @ tool"
        using True g tool re nb
        by (auto simp: mainLoopBody_def Let_def prims split: option.splits)
      then show ?thesis using True no pc tool by auto
    qed
  qed
qed

lemma main_go_not_hook:
  "filepath_Join (filepath_Join (filepath_Join (filepath_Join P ''src'') ''_main'') ''runhook'')
      ''main.go'' \<noteq> hookPath dir' name" if "P = Path dir'"
proof -
  consider "P = []" | "P \<noteq> []" "last P = CHR ''/''" | "P \<noteq> []" "last P \<noteq> CHR ''/''"
    by blast
  then show ?thesis
  proof cases
    case 1
    then show ?thesis using that by (auto simp: filepath_Join_def hookPath_def)
  next
    case 2
    then show ?thesis using that by (auto simp: filepath_Join_def hookPath_def)
  next
    case 3
    then show ?thesis using that by (auto simp: filepath_Join_def hookPath_def)
  qed
qed

lemma compile_files:
  assumes "compile sys dir ''runhook'' c x w = (r, w')"
  shows "files w' (hookPath dir name) = files w (hookPath dir name)"
    and "files w' p = None \<Longrightarrow> files w p = None"
  using assms main_go_not_hook [of "Path dir" dir name]
  by (auto simp: compile_def prims Let_def split: option.splits prod.splits if_splits)

lemma writeHook_stderr:
  "writeHook sys dir n w = (r, w') \<Longrightarrow> set (stderr w) \<subseteq> set (stderr w')"
  by (auto simp: writeHook_def prims Let_def split: option.splits if_splits)

lemma writeHook_conflict:
  assumes "writeHook sys dir n w = (r, w')"
    and "files w (hookPath dir n) = Some old"
    and "old \<noteq> stubContent sys (filepath_Join (filepath_Join (Path dir) ''bin'') ''runhook'') n"
  shows "r = None"
    and "''gocharm: warning: '' @ conflictMessage (hookPath dir n) \<in> set (stderr w')"
  using assms by (auto simp: writeHook_def prims Let_def)

lemma writeHooksLoop_stderr:
  "writeHooksLoop sys dir ns w = (r, w') \<Longrightarrow> set (stderr w) \<subseteq> set (stderr w')"
proof (induction ns arbitrary: w)
  case Nil
  then show ?case by simp
next
  case (Cons n ns)
  obtain r1 w1 where h: "writeHook sys dir n w = (r1, w1)" by (cases "writeHook sys dir n w")
  note f = writeHook_stderr [OF h]
  show ?case
  proof (cases r1)
    case None
    then have "writeHooksLoop sys dir ns w1 = (r, w')" using h Cons.prems by simp
    from Cons.IH [OF this] f show ?thesis by auto
  next
    case (Some e)
    then show ?thesis using h f Cons.prems by auto
  qed
qed

lemma writeHooksLoop_conflict:
  "writeHooksLoop sys dir ns w = (None, w') \<Longrightarrow> n \<in> set ns \<Longrightarrow>
   files w (hookPath dir n) = Some old \<Longrightarrow>
   old \<noteq> stubContent sys (filepath_Join (filepath_Join (Path dir) ''bin'') ''runhook'') n \<Longrightarrow>
     ''gocharm: warning: '' @ conflictMessage (hookPath dir n) \<in> set (stderr w')"
proof (induction ns arbitrary: w)
  case Nil
  then show ?case by simp
next
  case (Cons m ns)
  obtain r1 w1 where h: "writeHook sys dir m w = (r1, w1)" by (cases "writeHook sys dir m w")
  have r1: "r1 = None" using h Cons.prems(1) by (cases r1) auto
  then have l: "writeHooksLoop sys dir ns w1 = (None, w')" using h Cons.prems(1) by simp
  show ?case
  proof (cases "n = m")
    case True
    then have "''gocharm: warning: '' @ conflictMessage (hookPath dir n) \<in> set (stderr w1)"
      using writeHook_conflict(2) [OF _ Cons.prems(3) Cons.prems(4)] h by simp
    then show ?thesis using writeHooksLoop_stderr [OF l] by auto
  next
    case False
    then have "n \<in> set ns" using Cons.prems(2) by simp
    moreover have "files w1 (hookPath dir n) = Some old"
      using writeHook_files_mono [OF h Cons.prems(3)] .
    ultimately show ?thesis using Cons.IH [OF l _ _ Cons.prems(4)] by simp
  qed
qed

lemma writeHook_no_failure:
  "files w (hookPath dir n) = None \<longrightarrow> WriteFileErr sys (hookPath dir n) = None \<Longrightarrow>
     fst (writeHook sys dir n w) = None"
  by (auto simp: writeHook_def prims Let_def split: option.splits)

lemma writeHooksLoop_no_failure:
  "\<forall>n \<in> set ns. files w (hookPath dir n) = None \<longrightarrow> WriteFileErr sys (hookPath dir n) = None
     \<Longrightarrow> fst (writeHooksLoop sys dir ns w) = None"
proof (induction ns arbitrary: w)
  case Nil
  then show ?case by simp
next
  case (Cons m ns)
  obtain r1 w1 where h: "writeHook sys dir m w = (r1, w1)" by (cases "writeHook sys dir m w")
  have r1: "r1 = None" using writeHook_no_failure [of w dir m sys] Cons.prems h by simp
  have "\<forall>n \<in> set ns. files w1 (hookPath dir n) = None \<longrightarrow> WriteFileErr sys (hookPath dir n) = None"
  proof (intro ballI impI)
    fix n assume n: "n \<in> set ns" and f: "files w1 (hookPath dir n) = None"
    have "files w (hookPath dir n) = None"
    proof (cases "files w (hookPath dir n)")
      case None
      then show ?thesis .
    next
      case (Some c)
      from writeHook_files_mono [OF h Some] f show ?thesis by simp
    qed
    then show "WriteFileErr sys (hookPath dir n) = None" using Cons.prems n by simp
  qed
  from Cons.IH [OF this] show ?case using h r1 by simp
qed

lemma processGoCharm_files_kept:
  assumes "files w (hookPath dir name) = Some old"
  shows "files (snd (processGoCharm sys fl dir w)) (hookPath dir name) = Some old"
proof -
  obtain r w0 where b: "processGoCharmBody sys fl dir w = (r, w0)"
    by (cases "processGoCharmBody sys fl dir w")
  have "files w0 (hookPath dir name) = Some old"
  proof (cases "test fl")
    case True
    obtain e w1 where t: "testCharm sys dir w = (e, w1)" by (cases "testCharm sys dir w")
    have "w0 = w1" using True t b by (simp add: processGoCharmBody_def)
    then show ?thesis using testCharm_frame(3) [OF t] assms by simp
  next
    case False
    obtain e w1 where c: "compile sys dir ''runhook'' hookMainCode True w = (e, w1)"
      by (cases "compile sys dir ''runhook'' hookMainCode True w")
    have f: "files w1 (hookPath dir name) = Some old"
      using compile_files(1) [OF c] assms by simp
    show ?thesis
    proof (cases "\<exists>hooks d. e = None \<and> registeredHooks sys dir = Inr hooks
        \<and> Stat sys (filepath_Join (filepath_Join (Path dir) ''bin'') ''runhook'') = StatOk d")
      case True
      then obtain hooks d where h: "e = None" "registeredHooks sys dir = Inr hooks"
        "Stat sys (filepath_Join (filepath_Join (Path dir) ''bin'') ''runhook'') = StatOk d"
        by blast
      obtain e2 w2 where wh: "writeHooks sys dir (AList.update ''stop'' True hooks) w1 = (e2, w2)"
        by (cases "writeHooks sys dir (AList.update ''stop'' True hooks) w1")
      have "w0 = w2" using False c h wh b
        by (auto simp: processGoCharmBody_def split: option.splits)
      then show ?thesis
        using writeHooksLoop_files_mono [OF _ f] wh by (simp add: writeHooks_def)
    next
      case no: False
      have "w0 = w1" using False c no b
        by (auto simp: processGoCharmBody_def
              split: option.splits statResult.splits sum.splits prod.splits)
      then show ?thesis using f by simp
    qed
  qed
  then show ?thesis using b by (simp add: processGoCharm_def os_RemoveAll_def)
qed

lemma mainLoopBody_files:
  "files (mainLoopBody sys fl dir w) = files w
   \<or> files (mainLoopBody sys fl dir w) =
       files (snd (processGoCharm sys fl dir
          (if verbose fl then log_Printf (''processing '' @ Path dir) w else w)))"
  by (auto simp: mainLoopBody_def Let_def SetDiskRevision_def prims
        split: option.splits prod.splits)

lemma mainLoopBody_stderr:
  "isGoCharm sys dir = (True, None) \<Longrightarrow>
   set (stderr (snd (processGoCharm sys fl dir
          (if verbose fl then log_Printf (''processing '' @ Path dir) w else w))))
     \<subseteq> set (stderr (mainLoopBody sys fl dir w))"
  by (auto simp: mainLoopBody_def Let_def SetDiskRevision_def prims
        split: option.splits prod.splits)

lemma processGoCharm_started:
  "pipelineCompleted sys fl dir w \<Longrightarrow>
     fst (processGoCharm sys fl dir
            (if verbose fl then log_Printf (''processing '' @ Path dir) w else w)) = (True, None)"
proof -
  let ?w1 = "if verbose fl then log_Printf (''processing '' @ Path dir) w else w"
  assume a: "pipelineCompleted sys fl dir w"
  have "files ?w1 = files w" by (simp add: log_Printf_def)
  then have "pipelineCompleted sys fl dir ?w1 = pipelineCompleted sys fl dir w"
    by (rule pipelineCompleted_files_only)
  then have "pipelineCompleted sys fl dir ?w1" using a by simp
  then show ?thesis
    using processGoCharm_done(1) [of sys fl dir ?w1] by (simp add: pipelineCompleted_def)
qed

lemma mainLoopBody_completed_exitCode:
  assumes "pipelineCompleted sys fl dir w" and "RevisionWriteErr sys (Path dir) = None"
  shows "exitCode (mainLoopBody sys fl dir w) = exitCode w"
proof -
  let ?w1 = "if verbose fl then log_Printf (''processing '' @ Path dir) w else w"
  obtain r w2 where g: "processGoCharm sys fl dir ?w1 = (r, w2)"
    by (cases "processGoCharm sys fl dir ?w1")
  have r: "r = (True, None)" using processGoCharm_started [OF assms(1)] g by simp
  have "exitCode w2 = exitCode w"
    using processGoCharm_frame(1) [OF g] by (simp add: log_Printf_def)
  moreover have "isGoCharm sys dir = (True, None)"
    using assms(1) by (simp add: pipelineCompleted_def)
  ultimately show ?thesis using g r assms(2)
    by (simp add: mainLoopBody_def Let_def SetDiskRevision_def prims)
qed

lemma processGoCharm_conflict_warning:
  assumes "registeredHooks sys dir = Inr hooks"
    and "name \<in> set (hookNames (AList.update ''stop'' True hooks))"
    and "files w (hookPath dir name) = Some old"
    and "old \<noteq> stubContent sys (filepath_Join (filepath_Join (Path dir) ''bin'') ''runhook'') name"
    and "fst (processGoCharm sys fl dir w) = (True, None)"
  shows "''gocharm: warning: '' @ conflictMessage (hookPath dir name)
           \<in> set (stderr (snd (processGoCharm sys fl dir w)))"
proof -
  let ?hs = "AList.update ''stop'' True hooks"
  obtain e w1 where c: "compile sys dir ''runhook'' hookMainCode True w = (e, w1)"
    by (cases "compile sys dir ''runhook'' hookMainCode True w")
  obtain e2 w2 where wh: "writeHooks sys dir ?hs w1 = (e2, w2)"
    by (cases "writeHooks sys dir ?hs w1")
  have d: "\<not> test fl" "buildCompleted sys dir w" "stubSyncCompleted sys dir w"
    using assms(5) processGoCharm_done(1) [of sys fl dir w] by simp_all
  have e: "e = None" using d(2) c by (simp add: buildCompleted_def)
  have e2: "e2 = None" using d(3) c wh assms(1) by (simp add: stubSyncCompleted_def)
  obtain dd where st: "Stat sys (filepath_Join (filepath_Join (Path dir) ''bin'') ''runhook'') = StatOk dd"
    using d(2) by (auto simp: buildCompleted_def split: statResult.splits)
  have "snd (processGoCharm sys fl dir w) = os_RemoveAll (filepath_Join (Path dir) ''pkg'') w2"
    using d(1) c e st assms(1) wh e2
    by (simp add: processGoCharm_def processGoCharmBody_def)
  moreover have "files w1 (hookPath dir name) = Some old"
    using compile_files(1) [OF c] assms(3) by simp
  then have "''gocharm: warning: '' @ conflictMessage (hookPath dir name) \<in> set (stderr w2)"
    using writeHooksLoop_conflict [of sys dir "hookNames ?hs" w1 w2 name old] wh e2 assms(2,4)
    by (simp add: writeHooks_def)
  ultimately show ?thesis by (simp add: os_RemoveAll_def)
qed

lemma Getenv_setenvLoop_same:
  "Getenv (setenvLoop (name @ ''='') (name @ ''='' @ v) env) name = v"
  by (induction env) simp_all

lemma Getenv_setenvLoop_other:
  "\<not> prefix (name @ ''='') entry \<Longrightarrow> (\<And>e. prefix pre e \<Longrightarrow> \<not> prefix (name @ ''='') e) \<Longrightarrow>
     Getenv (setenvLoop pre entry env) name = Getenv env name"
  by (induction env) auto

lemma setenvLoop_length:
  "length (setenvLoop pre entry env) =
     (if \<exists>e \<in> set env. prefix pre e then length env else length env + 1)"
  by (induction env) auto

lemma setenv_GOPATH:
  "setenv env (''GOPATH='' @ v) = Some (setenvLoop ''GOPATH='' (''GOPATH='' @ v) env)"
  by (simp add: setenv_def IndexEq_def)

lemma setenv_cross:
  "setenv env ''CGOENABLED=false'' = Some (setenvLoop ''CGOENABLED='' ''CGOENABLED=false'' env)"
  "setenv env ''GOARCH=amd64'' = Some (setenvLoop ''GOARCH='' ''GOARCH=amd64'' env)"
  "setenv env ''GOOS=linux'' = Some (setenvLoop ''GOOS='' ''GOOS=linux'' env)"
  by (simp_all add: setenv_def IndexEq_def)

lemma compileEnv_eq:
  "compileEnv sys dir crossCompile =
     Some (let env = setenvLoop ''GOPATH=''
                       (''GOPATH='' @ Path dir @ '':'' @ Getenv (Environ sys) ''GOPATH'')
                       (Environ sys)
           in if crossCompile
              then setenvLoop ''GOOS='' ''GOOS=linux''
                     (setenvLoop ''GOARCH='' ''GOARCH=amd64''
                        (setenvLoop ''CGOENABLED='' ''CGOENABLED=false'' env))
              else env)"
  using setenv_GOPATH [of "Environ sys" "Path dir @ '':'' @ Getenv (Environ sys) ''GOPATH''"]
  by (simp add: compileEnv_def setenv_cross Let_def)

lemma compileEnv_total: "compileEnv sys dir crossCompile \<noteq> None"
  by (simp add: compileEnv_eq)

lemma compileEnv_lookup:
  assumes "compileEnv sys dir crossCompile = Some env"
  shows "Getenv env ''GOPATH'' = Path dir @ '':'' @ Getenv (Environ sys) ''GOPATH''"
    and "crossCompile \<Longrightarrow> Getenv env ''CGOENABLED'' = ''false''"
    and "crossCompile \<Longrightarrow> Getenv env ''GOARCH'' = ''amd64''"
    and "crossCompile \<Longrightarrow> Getenv env ''GOOS'' = ''linux''"
proof -
  let ?gp = "''GOPATH='' @ Path dir @ '':'' @ Getenv (Environ sys) ''GOPATH''"
  let ?e0 = "setenvLoop ''GOPATH='' ?gp (Environ sys)"
  let ?e1 = "setenvLoop ''CGOENABLED='' ''CGOENABLED=false'' ?e0"
  let ?e2 = "setenvLoop ''GOARCH='' ''GOARCH=amd64'' ?e1"
  let ?e3 = "setenvLoop ''GOOS='' ''GOOS=linux'' ?e2"
  have env: "env = (if crossCompile then ?e3 else ?e0)"
    using assms by (auto simp: compileEnv_eq Let_def)
  have g0: "Getenv ?e0 ''GOPATH'' = Path dir @ '':'' @ Getenv (Environ sys) ''GOPATH''"
    using Getenv_setenvLoop_same [of "''GOPATH''" "Path dir @ '':'' @ Getenv (Environ sys) ''GOPATH''"
        "Environ sys"] by simp
  have g1: "Getenv ?e1 ''GOPATH'' = Getenv ?e0 ''GOPATH''"
    by (rule Getenv_setenvLoop_other) (auto simp: prefix_def)
  have g2: "Getenv ?e2 ''GOPATH'' = Getenv ?e1 ''GOPATH''"
    by (rule Getenv_setenvLoop_other) (auto simp: prefix_def)
  have g3: "Getenv ?e3 ''GOPATH'' = Getenv ?e2 ''GOPATH''"
    by (rule Getenv_setenvLoop_other) (auto simp: prefix_def)
  show "Getenv env ''GOPATH'' = Path dir @ '':'' @ Getenv (Environ sys) ''GOPATH''"
    using env g0 g1 g2 g3 by simp
  have c1: "Getenv ?e1 ''CGOENABLED'' = ''false''"
    using Getenv_setenvLoop_same [of "''CGOENABLED''" "''false''" ?e0] by simp
  have c2: "Getenv ?e2 ''CGOENABLED'' = Getenv ?e1 ''CGOENABLED''"
    by (rule Getenv_setenvLoop_other) (auto simp: prefix_def)
  have c3: "Getenv ?e3 ''CGOENABLED'' = Getenv ?e2 ''CGOENABLED''"
    by (rule Getenv_setenvLoop_other) (auto simp: prefix_def)
  show "Getenv env ''CGOENABLED'' = ''false''" if crossCompile
    using that env c1 c2 c3 by simp
  have a2: "Getenv ?e2 ''GOARCH'' = ''amd64''"
    using Getenv_setenvLoop_same [of "''GOARCH''" "''amd64''" ?e1] by simp
  have a3: "Getenv ?e3 ''GOARCH'' = Getenv ?e2 ''GOARCH''"
    by (rule Getenv_setenvLoop_other) (auto simp: prefix_def)
  show "Getenv env ''GOARCH'' = ''amd64''" if crossCompile
    using that env a2 a3 by simp
  show "Getenv env ''GOOS'' = ''linux''" if crossCompile
    using that env Getenv_setenvLoop_same [of "''GOOS''" "''linux''" ?e2] by simp
qed

lemmas evals = main_def repoDir_def charmPattern_def filepath_Join_def filepath_Dir_def
  filepath_Split_def ReadDir_def mainLoopBody_def isGoCharm_def processGoCharm_def
  processGoCharmBody_def compile_def compileEnv_def setenv_def IndexEq_def
  writeHooks_def writeHook_def hookNames_def hookPath_def conflictMessage_def
  SetDiskRevision_def successLine_def showInt_def showNat.simps quote_def Wrapf_def
  testCharm_def run_cmd_def packagesInDir_def testEnv_def fatalf_def initial_def prims
  exampleSys_def exampleFlags_def exampleDir_def exampleWorld_def readOnlySys_def
  deniedSys_def plainSys_def emptySys_def conflictWorld_def customStop_def
  testFlags_def failingTestSys_def
  pipelineCompleted_def buildCompleted_def introspectionCompleted_def stubSyncCompleted_def
  Let_def

subsection \<open>C1: when the revision is advanced\<close>

text \<open>
  C1, as amended. For a charm whose revision in memory is the one on disk, the revision
  on disk after the charm's turn is the old one plus 1 if and only if the pipeline
  completed for it (it is a Go charm, and build, introspection and stub synchronization
  all returned without error) and the write of the revision file itself succeeded; in
  every other case the revision on disk is unchanged. The revision of every other charm
  is unchanged.
\<close>

theorem revision_advanced_iff:
  "Revision dir = diskRevision w (Path dir) \<Longrightarrow>
     (diskRevision (mainLoopBody sys fl dir w) (Path dir) = diskRevision w (Path dir) + 1
        \<longleftrightarrow> pipelineCompleted sys fl dir w \<and> RevisionWriteErr sys (Path dir) = None)
     \<and> (\<not> (pipelineCompleted sys fl dir w \<and> RevisionWriteErr sys (Path dir) = None)
        \<longrightarrow> diskRevision (mainLoopBody sys fl dir w) (Path dir) = diskRevision w (Path dir))
     \<and> (\<forall>p. p \<noteq> Path dir \<longrightarrow> diskRevision (mainLoopBody sys fl dir w) p = diskRevision w p)"
  by (simp add: mainLoopBody_diskRevision)

theorem revision_advanced_iff_witness:
  "Revision exampleDir = diskRevision exampleWorld (Path exampleDir)
   \<and> pipelineCompleted exampleSys exampleFlags exampleDir exampleWorld
   \<and> RevisionWriteErr exampleSys (Path exampleDir) = None
   \<and> diskRevision exampleWorld (Path exampleDir) = 7
   \<and> diskRevision (mainLoopBody exampleSys exampleFlags exampleDir exampleWorld) (Path exampleDir) = 8
   \<and> diskRevision (mainLoopBody exampleSys exampleFlags exampleDir exampleWorld) ''/srv/charms/precise/wordpress'' = 7"
  using revision_advanced_iff [of exampleDir exampleWorld exampleSys exampleFlags]
  by (simp add: evals)

text \<open>
  The claim as stated, without the proviso on the write, fails: with a revision file
  that cannot be written the three stages complete, \<open>main\<close> reports \<open>cannot bump
  revision\<close> (exit status 1), and the revision on disk is still 7.
\<close>

theorem revision_write_failure:
  "pipelineCompleted readOnlySys exampleFlags exampleDir exampleWorld
   \<and> diskRevision exampleWorld ''/srv/charms/precise/mysql'' = 7
   \<and> diskRevision (snd (main readOnlySys exampleFlags exampleWorld)) ''/srv/charms/precise/mysql'' = 7
   \<and> fst (main readOnlySys exampleFlags exampleWorld) = 1"
  by (simp add: evals)

subsection \<open>C2: the stop hook\<close>

text \<open>
  C2. When \<open>processGoCharm\<close> gets as far as writing stubs (no test run, the build
  succeeded, the binary is there and \<open>registeredHooks\<close> returned the set \<open>hooks\<close>), the
  set it hands to \<open>writeHooks\<close> is \<open>hooks\<close> with \<open>stop\<close> set: it contains \<open>stop\<close>,
  every other name is in it exactly as it is in \<open>hooks\<close>, and its names are those of
  \<open>hooks\<close> and \<open>stop\<close>. When the charm is processed without error, the stub of \<open>stop\<close>
  and of every registered hook is on disk.
\<close>

theorem stop_hook_in_stub_set:
  assumes "\<not> test fl"
    and "compile sys dir ''runhook'' hookMainCode True w = (None, w1)"
    and "Stat sys (filepath_Join (filepath_Join (Path dir) ''bin'') ''runhook'') = StatOk d"
    and "registeredHooks sys dir = Inr hooks"
  shows "processGoCharmBody sys fl dir w =
           (case writeHooks sys dir (AList.update ''stop'' True hooks) w1 of
              (Some e, w2) \<Rightarrow> ((False, Some (Wrapf e ''cannot write hooks to charm'')), w2)
            | (None, w2) \<Rightarrow> ((True, None), w2))
         \<and> map_of (AList.update ''stop'' True hooks) ''stop'' = Some True
         \<and> (\<forall>h. h \<noteq> ''stop'' \<longrightarrow> map_of (AList.update ''stop'' True hooks) h = map_of hooks h)
         \<and> set (hookNames (AList.update ''stop'' True hooks)) = insert ''stop'' (fst ` set hooks)
         \<and> (fst (processGoCharm sys fl dir w) = (True, None) \<longrightarrow>
              (\<forall>h \<in> insert ''stop'' (fst ` set hooks).
                 files (snd (processGoCharm sys fl dir w)) (hookPath dir h) \<noteq> None))"
proof -
  let ?hs = "AList.update ''stop'' True hooks"
  have body: "processGoCharmBody sys fl dir w =
           (case writeHooks sys dir ?hs w1 of
              (Some e, w2) \<Rightarrow> ((False, Some (Wrapf e ''cannot write hooks to charm'')), w2)
            | (None, w2) \<Rightarrow> ((True, None), w2))"
    using assms by (simp add: processGoCharmBody_def)
  have names: "set (hookNames ?hs) = insert ''stop'' (fst ` set hooks)"
    by (simp add: hookNames_set dom_update)
  have written: "\<forall>h \<in> insert ''stop'' (fst ` set hooks).
       files (snd (processGoCharm sys fl dir w)) (hookPath dir h) \<noteq> None"
    if ok: "fst (processGoCharm sys fl dir w) = (True, None)"
  proof -
    obtain e w2 where wh: "writeHooks sys dir ?hs w1 = (e, w2)"
      by (cases "writeHooks sys dir ?hs w1")
    have "e = None" using ok body wh
      by (cases e) (simp_all add: processGoCharm_def)
    then have l: "writeHooksLoop sys dir (hookNames ?hs) w1 = (None, w2)"
      using wh by (simp add: writeHooks_def)
    have "files (snd (processGoCharm sys fl dir w)) = files w2"
      using body wh \<open>e = None\<close> by (simp add: processGoCharm_def os_RemoveAll_def)
    then show ?thesis
      using writeHooksLoop_written [OF l] names by auto
  qed
  show ?thesis
    using body names written by (simp add: update_conv')
qed

theorem stop_hook_in_stub_set_witness:
  "\<not> test exampleFlags
   \<and> fst (compile exampleSys exampleDir ''runhook'' hookMainCode True exampleWorld) = None
   \<and> Stat exampleSys (filepath_Join (filepath_Join (Path exampleDir) ''bin'') ''runhook'') = StatOk False
   \<and> registeredHooks exampleSys exampleDir = Inr [(''config-changed'', True)]
   \<and> set (hookNames (AList.update ''stop'' True [(''config-changed'', True)])) = {''stop'', ''config-changed''}
   \<and> fst (processGoCharm exampleSys exampleFlags exampleDir exampleWorld) = (True, None)
   \<and> files (snd (processGoCharm exampleSys exampleFlags exampleDir exampleWorld))
        ''/srv/charms/precise/mysql/hooks/stop'' \<noteq> None"
proof -
  have c: "compile exampleSys exampleDir ''runhook'' hookMainCode True exampleWorld =
      (None, snd (compile exampleSys exampleDir ''runhook'' hookMainCode True exampleWorld))"
    by (simp add: prod_eq_iff evals)
  have s: "Stat exampleSys (filepath_Join (filepath_Join (Path exampleDir) ''bin'') ''runhook'') = StatOk False"
    by (simp add: evals)
  have r: "registeredHooks exampleSys exampleDir = Inr [(''config-changed'', True)]"
    by (simp add: evals)
  have t: "\<not> test exampleFlags" by (simp add: evals)
  have ok: "fst (processGoCharm exampleSys exampleFlags exampleDir exampleWorld) = (True, None)"
    by (simp add: evals)
  have p: "hookPath exampleDir ''stop'' = ''/srv/charms/precise/mysql/hooks/stop''"
    by (simp add: evals)
  note th = stop_hook_in_stub_set [OF t c s r]
  have n: "set (hookNames (AList.update ''stop'' True [(''config-changed'', True)])) =
      insert ''stop'' (fst ` set [(''config-changed'', True)])"
    using th [THEN conjunct2, THEN conjunct2, THEN conjunct2, THEN conjunct1] .
  have "\<forall>h \<in> insert ''stop'' (fst ` set [(''config-changed'', True)]).
      files (snd (processGoCharm exampleSys exampleFlags exampleDir exampleWorld))
        (hookPath exampleDir h) \<noteq> None"
    using th [THEN conjunct2, THEN conjunct2, THEN conjunct2, THEN conjunct2] ok by blast
  then have f: "files (snd (processGoCharm exampleSys exampleFlags exampleDir exampleWorld))
        ''/srv/charms/precise/mysql/hooks/stop'' \<noteq> None"
    using p by simp
  have c1: "fst (compile exampleSys exampleDir ''runhook'' hookMainCode True exampleWorld) = None"
    using c by (simp add: prod_eq_iff)
  show ?thesis
    apply (intro conjI)
    apply (rule t)
    apply (rule c1)
    apply (rule s)
    apply (rule r)
    using n apply simp
    apply (rule ok)
    apply (rule f)
    done
qed

subsection \<open>C3: a stub that was changed by hand\<close>

text \<open>
  C3. Let \<open>name\<close> be in the hook set of a charm (the registered hooks and \<open>stop\<close>), and
  let its stub exist on disk with a content that differs from the generated one. Then
  after the charm's turn the stub still has that content; when the pipeline completes, a
  warning that names the file is on the standard error; the conflict does not make the
  stub synchronization fail (it completes whenever every missing stub can be written);
  and when the pipeline completes and the revision file can be written, the revision is
  advanced and the exit code is not touched.
\<close>

theorem modified_stub_left_unchanged:
  assumes "registeredHooks sys dir = Inr hooks"
    and "name \<in> set (hookNames (AList.update ''stop'' True hooks))"
    and "files w (hookPath dir name) = Some old"
    and "old \<noteq> stubContent sys (filepath_Join (filepath_Join (Path dir) ''bin'') ''runhook'') name"
  shows "files (mainLoopBody sys fl dir w) (hookPath dir name) = Some old
     \<and> (pipelineCompleted sys fl dir w \<longrightarrow>
          ''gocharm: warning: '' @ conflictMessage (hookPath dir name)
            \<in> set (stderr (mainLoopBody sys fl dir w)))
     \<and> ((\<forall>n \<in> set (hookNames (AList.update ''stop'' True hooks)).
            files w (hookPath dir n) = None \<longrightarrow> WriteFileErr sys (hookPath dir n) = None)
          \<longrightarrow> stubSyncCompleted sys dir w)
     \<and> (pipelineCompleted sys fl dir w \<and> RevisionWriteErr sys (Path dir) = None \<longrightarrow>
          diskRevision (mainLoopBody sys fl dir w) (Path dir) = Revision dir + 1
          \<and> exitCode (mainLoopBody sys fl dir w) = exitCode w)"
proof (intro conjI impI)
  let ?w1 = "if verbose fl then log_Printf (''processing '' @ Path dir) w else w"
  have f1: "files ?w1 = files w" by (simp add: log_Printf_def)
  show "files (mainLoopBody sys fl dir w) (hookPath dir name) = Some old"
    using mainLoopBody_files [of sys fl dir w]
      processGoCharm_files_kept [of ?w1 dir name old sys fl] assms(3) f1
    by auto
  show "''gocharm: warning: '' @ conflictMessage (hookPath dir name)
            \<in> set (stderr (mainLoopBody sys fl dir w))"
    if pc: "pipelineCompleted sys fl dir w"
  proof -
    have "''gocharm: warning: '' @ conflictMessage (hookPath dir name)
           \<in> set (stderr (snd (processGoCharm sys fl dir ?w1)))"
      using processGoCharm_conflict_warning [OF assms(1,2) _ assms(4), of ?w1 fl]
        processGoCharm_started [OF pc] assms(3) f1 by simp
    moreover have "isGoCharm sys dir = (True, None)"
      using pc by (simp add: pipelineCompleted_def)
    ultimately show ?thesis using mainLoopBody_stderr [of sys dir fl w] by auto
  qed
  show "stubSyncCompleted sys dir w"
    if wr: "\<forall>n \<in> set (hookNames (AList.update ''stop'' True hooks)).
            files w (hookPath dir n) = None \<longrightarrow> WriteFileErr sys (hookPath dir n) = None"
  proof -
    obtain e w1 where c: "compile sys dir ''runhook'' hookMainCode True w = (e, w1)"
      by (cases "compile sys dir ''runhook'' hookMainCode True w")
    have "\<forall>n \<in> set (hookNames (AList.update ''stop'' True hooks)).
            files w1 (hookPath dir n) = None \<longrightarrow> WriteFileErr sys (hookPath dir n) = None"
      using wr compile_files(2) [OF c] by blast
    from writeHooksLoop_no_failure [OF this] show ?thesis
      using assms(1) c by (simp add: stubSyncCompleted_def writeHooks_def)
  qed
  show "diskRevision (mainLoopBody sys fl dir w) (Path dir) = Revision dir + 1"
    if "pipelineCompleted sys fl dir w \<and> RevisionWriteErr sys (Path dir) = None"
    using that by (simp add: mainLoopBody_diskRevision)
  show "exitCode (mainLoopBody sys fl dir w) = exitCode w"
    if "pipelineCompleted sys fl dir w \<and> RevisionWriteErr sys (Path dir) = None"
    using that mainLoopBody_completed_exitCode by simp
qed

theorem modified_stub_left_unchanged_witness:
  "registeredHooks exampleSys exampleDir = Inr [(''config-changed'', True)]
   \<and> ''stop'' \<in> set (hookNames (AList.update ''stop'' True [(''config-changed'', True)]))
   \<and> files conflictWorld (hookPath exampleDir ''stop'') = Some customStop
   \<and> customStop \<noteq> stubContent exampleSys
        (filepath_Join (filepath_Join (Path exampleDir) ''bin'') ''runhook'') ''stop''
   \<and> pipelineCompleted exampleSys exampleFlags exampleDir conflictWorld
   \<and> RevisionWriteErr exampleSys (Path exampleDir) = None
   \<and> files (mainLoopBody exampleSys exampleFlags exampleDir conflictWorld)
        (hookPath exampleDir ''stop'') = Some customStop
   \<and> ''gocharm: warning: '' @ conflictMessage (hookPath exampleDir ''stop'')
        \<in> set (stderr (mainLoopBody exampleSys exampleFlags exampleDir conflictWorld))
   \<and> diskRevision (mainLoopBody exampleSys exampleFlags exampleDir conflictWorld)
        (Path exampleDir) = 8
   \<and> exitCode (mainLoopBody exampleSys exampleFlags exampleDir conflictWorld) = 0"
proof -
  have r: "registeredHooks exampleSys exampleDir = Inr [(''config-changed'', True)]"
    by (simp add: exampleSys_def)
  have n: "''stop'' \<in> set (hookNames (AList.update ''stop'' True [(''config-changed'', True)]))"
    by (simp add: hookNames_def)
  have f: "files conflictWorld (hookPath exampleDir ''stop'') = Some customStop"
    by (simp add: conflictWorld_def initial_def hookPath_def filepath_Join_def exampleDir_def)
  have d: "customStop \<noteq> stubContent exampleSys
        (filepath_Join (filepath_Join (Path exampleDir) ''bin'') ''runhook'') ''stop''"
    by (simp add: customStop_def exampleSys_def filepath_Join_def exampleDir_def)
  have pc: "pipelineCompleted exampleSys exampleFlags exampleDir conflictWorld"
    by (simp add: evals)
  have w: "RevisionWriteErr exampleSys (Path exampleDir) = None"
    by (simp add: exampleSys_def)
  have rv: "Revision exampleDir + 1 = 8" by (simp add: exampleDir_def)
  have ec: "exitCode conflictWorld = 0" by (simp add: conflictWorld_def initial_def)
  note th = modified_stub_left_unchanged [OF r n f d, of exampleFlags]
  have c1: "files (mainLoopBody exampleSys exampleFlags exampleDir conflictWorld)
        (hookPath exampleDir ''stop'') = Some customStop"
    using th [THEN conjunct1] .
  have c2: "''gocharm: warning: '' @ conflictMessage (hookPath exampleDir ''stop'')
        \<in> set (stderr (mainLoopBody exampleSys exampleFlags exampleDir conflictWorld))"
    using th [THEN conjunct2, THEN conjunct1] pc by blast
  have c4: "diskRevision (mainLoopBody exampleSys exampleFlags exampleDir conflictWorld)
        (Path exampleDir) = Revision exampleDir + 1
     \<and> exitCode (mainLoopBody exampleSys exampleFlags exampleDir conflictWorld) = exitCode conflictWorld"
    using th [THEN conjunct2, THEN conjunct2, THEN conjunct2] pc w by blast
  show ?thesis
    apply (intro conjI)
    apply (rule r, rule n, rule f, rule d, rule pc, rule w, rule c1, rule c2)
    using c4 rv apply simp
    using c4 ec apply simp
    done
qed

subsection \<open>C4: a charm without hooks in Go\<close>

text \<open>
  C4. When \<open>src/runhook\<close> of a charm does not exist, or exists and is not a directory,
  the charm's turn makes no call (no build, no stub is written), leaves the files and
  every revision as they are, prints nothing on the standard output and leaves the exit
  code alone: it is no error. Nothing is printed on the standard error either, except
  the one line of the verbose mode; the loop goes on with the next charm.
\<close>

theorem non_go_charm_skipped:
  assumes "Stat sys (filepath_Join (Path dir) ''src/runhook'') = StatNotExist
           \<or> Stat sys (filepath_Join (Path dir) ''src/runhook'') = StatOk False"
  shows "trace (mainLoopBody sys fl dir w) = trace w
         \<and> files (mainLoopBody sys fl dir w) = files w
         \<and> diskRevision (mainLoopBody sys fl dir w) = diskRevision w
         \<and> stdout (mainLoopBody sys fl dir w) = stdout w
         \<and> exitCode (mainLoopBody sys fl dir w) = exitCode w
         \<and> stderr (mainLoopBody sys fl dir w) =
             (if verbose fl then stderr w @ [''ignoring non-Go charm '' @ Path dir]
              else stderr w)
         \<and> mainLoop sys fl (dir # dirs) w = mainLoop sys fl dirs (mainLoopBody sys fl dir w)"
  using assms by (auto simp: mainLoopBody_def isGoCharm_def log_Printf_def)

theorem non_go_charm_skipped_witness:
  "Stat plainSys (filepath_Join (Path exampleDir) ''src/runhook'') = StatNotExist
   \<and> trace (mainLoopBody plainSys exampleFlags exampleDir exampleWorld) = []
   \<and> stdout (mainLoopBody plainSys exampleFlags exampleDir exampleWorld) = []
   \<and> stderr (mainLoopBody plainSys exampleFlags exampleDir exampleWorld) = []
   \<and> exitCode (mainLoopBody plainSys exampleFlags exampleDir exampleWorld) = 0
   \<and> diskRevision (mainLoopBody plainSys exampleFlags exampleDir exampleWorld) (Path exampleDir) = 7"
proof -
  have s: "Stat plainSys (filepath_Join (Path exampleDir) ''src/runhook'') = StatNotExist"
    by (simp add: plainSys_def)
  have v: "\<not> verbose exampleFlags" by (simp add: exampleFlags_def)
  have e: "trace exampleWorld = []" "stderr exampleWorld = []" "stdout exampleWorld = []"
    "exitCode exampleWorld = 0" "diskRevision exampleWorld (Path exampleDir) = 7"
    by (simp_all add: exampleWorld_def initial_def)
  have th: "trace (mainLoopBody plainSys exampleFlags exampleDir exampleWorld) = trace exampleWorld
         \<and> files (mainLoopBody plainSys exampleFlags exampleDir exampleWorld) = files exampleWorld
         \<and> diskRevision (mainLoopBody plainSys exampleFlags exampleDir exampleWorld) = diskRevision exampleWorld
         \<and> stdout (mainLoopBody plainSys exampleFlags exampleDir exampleWorld) = stdout exampleWorld
         \<and> exitCode (mainLoopBody plainSys exampleFlags exampleDir exampleWorld) = exitCode exampleWorld
         \<and> stderr (mainLoopBody plainSys exampleFlags exampleDir exampleWorld) =
             (if verbose exampleFlags then stderr exampleWorld @ [''ignoring non-Go charm '' @ Path exampleDir]
              else stderr exampleWorld)
         \<and> mainLoop plainSys exampleFlags (exampleDir # []) exampleWorld =
             mainLoop plainSys exampleFlags [] (mainLoopBody plainSys exampleFlags exampleDir exampleWorld)"
    by (rule non_go_charm_skipped) (simp add: s)
  show ?thesis
    apply (intro conjI)
    apply (rule s)
    apply (simp only: th e)
    apply (simp only: th e)
    apply (simp only: th e v if_False)
    apply (simp only: th e)
    apply (simp only: th e)
    done
qed

subsection \<open>C5: fatal configuration errors\<close>

text \<open>
  C5. When no repository is given (neither the flag nor \<open>JUJU_REPOSITORY\<close>), or no
  \<open>metadata.yaml\<close> is found two levels below it, the run ends with exit status 2, with
  one error message and nothing else: nothing on the standard output, no call made,
  nothing changed on disk. Every other run ends with exit status 0 or 1, where 1 is the
  status of a run in which some charm failed.
\<close>

theorem fatal_configuration_error:
  "(repoDir sys fl = '''' \<or> Glob sys (charmPattern (repoDir sys fl)) = [] \<longrightarrow>
      fst (main sys fl (initial revs fs)) = 2
      \<and> stdout (snd (main sys fl (initial revs fs))) = []
      \<and> stderr (snd (main sys fl (initial revs fs))) =
           [if repoDir sys fl = '''' then ''gocharm: no charm repo directory specified''
            else ''gocharm: no charms found'']
      \<and> trace (snd (main sys fl (initial revs fs))) = []
      \<and> diskRevision (snd (main sys fl (initial revs fs))) = revs
      \<and> files (snd (main sys fl (initial revs fs))) = fs)
   \<and> (\<not> (repoDir sys fl = '''' \<or> Glob sys (charmPattern (repoDir sys fl)) = []) \<longrightarrow>
      fst (main sys fl (initial revs fs)) \<in> {0, 1})"
proof (intro conjI impI)
  assume n: "\<not> (repoDir sys fl = '''' \<or> Glob sys (charmPattern (repoDir sys fl)) = [])"
  obtain dirs w1 where r: "readDirs sys (Glob sys (charmPattern (repoDir sys fl))) (initial revs fs) = (dirs, w1)"
    by (cases "readDirs sys (Glob sys (charmPattern (repoDir sys fl))) (initial revs fs)")
  have "exitCode (initial revs fs) \<in> {0, 1}" by (simp add: initial_def)
  from readDirs_exitCode [OF this, of sys "Glob sys (charmPattern (repoDir sys fl))"]
  have "exitCode w1 \<in> {0, 1}" using r by simp
  from mainLoop_exitCode [OF this, of sys fl dirs]
  show "fst (main sys fl (initial revs fs)) \<in> {0, 1}"
    using n r by (simp add: main_def Let_def)
qed (auto simp: main_def fatalf_def errorf_def initial_def Let_def)

theorem fatal_configuration_error_witness:
  "Glob emptySys (charmPattern (repoDir emptySys exampleFlags)) = []
   \<and> fst (main emptySys exampleFlags (initial (\<lambda>p. 7) Map.empty)) = 2
   \<and> stdout (snd (main emptySys exampleFlags (initial (\<lambda>p. 7) Map.empty))) = []
   \<and> stderr (snd (main emptySys exampleFlags (initial (\<lambda>p. 7) Map.empty))) =
        [''gocharm: no charms found'']
   \<and> trace (snd (main emptySys exampleFlags (initial (\<lambda>p. 7) Map.empty))) = []
   \<and> repoDir exampleSys exampleFlags = ''/srv/charms''
   \<and> Glob exampleSys (charmPattern (repoDir exampleSys exampleFlags)) =
        [''/srv/charms/precise/mysql/metadata.yaml'']
   \<and> fst (main exampleSys exampleFlags (initial (\<lambda>p. 7) Map.empty)) \<in> {0, 1}"
proof -
  have g: "Glob emptySys (charmPattern (repoDir emptySys exampleFlags)) = []"
    by (simp add: emptySys_def)
  have r: "repoDir emptySys exampleFlags = ''/srv/charms''"
    "repoDir exampleSys exampleFlags = ''/srv/charms''"
    by (simp_all add: repoDir_def exampleFlags_def)
  have rn: "repoDir emptySys exampleFlags \<noteq> ''''" "repoDir exampleSys exampleFlags \<noteq> ''''"
    by (simp_all add: r)
  have g2: "Glob exampleSys (charmPattern (repoDir exampleSys exampleFlags)) =
        [''/srv/charms/precise/mysql/metadata.yaml'']"
    unfolding r by (simp add: charmPattern_def filepath_Join_def exampleSys_def)
  note t1 = fatal_configuration_error [of emptySys exampleFlags "\<lambda>p. 7" Map.empty,
      THEN conjunct1, rule_format, OF disjI2, OF g]
  note t2 = fatal_configuration_error [of exampleSys exampleFlags "\<lambda>p. 7" Map.empty,
      THEN conjunct2, rule_format]
  have n2: "\<not> (repoDir exampleSys exampleFlags = '''' \<or>
      Glob exampleSys (charmPattern (repoDir exampleSys exampleFlags)) = [])"
    using rn g2 by simp
  have s: "stderr (snd (main emptySys exampleFlags (initial (\<lambda>p. 7) Map.empty))) =
        [''gocharm: no charms found'']"
    using t1 [THEN conjunct2, THEN conjunct2, THEN conjunct1] rn(1) by simp
  show ?thesis
    apply (intro conjI)
    apply (rule g)
    apply (rule t1 [THEN conjunct1])
    apply (rule t1 [THEN conjunct2, THEN conjunct1])
    apply (rule s)
    apply (rule t1 [THEN conjunct2, THEN conjunct2, THEN conjunct2, THEN conjunct1])
    apply (rule r(2))
    apply (rule g2)
    apply (rule t2 [OF n2])
    done
qed

subsection \<open>C6: a charm that cannot be classified\<close>

text \<open>
  C6, as amended. When \<open>os.Stat\<close> of \<open>src/runhook\<close> fails with an error other than
  "does not exist", the charm is skipped: no call is made (no build, no stub is
  written), files and revisions are unchanged, nothing is printed on the standard
  output, one warning goes to the standard error, and the loop goes on with the next
  charm. The exit code is left as it was: a warning does not make the run fail.
\<close>

theorem classification_error_warns:
  assumes "Stat sys (filepath_Join (Path dir) ''src/runhook'') = StatError e"
  shows "mainLoopBody sys fl dir w =
           warningf (''cannot determine if '' @ quote (Path dir) @ '' is a Go charm: '' @ e) w
         \<and> trace (mainLoopBody sys fl dir w) = trace w
         \<and> files (mainLoopBody sys fl dir w) = files w
         \<and> diskRevision (mainLoopBody sys fl dir w) = diskRevision w
         \<and> stdout (mainLoopBody sys fl dir w) = stdout w
         \<and> exitCode (mainLoopBody sys fl dir w) = exitCode w
         \<and> stderr (mainLoopBody sys fl dir w) = stderr w @
             [''gocharm: warning: cannot determine if '' @ quote (Path dir)
                @ '' is a Go charm: '' @ e]
         \<and> mainLoop sys fl (dir # dirs) w = mainLoop sys fl dirs (mainLoopBody sys fl dir w)"
  using assms by (auto simp: mainLoopBody_def isGoCharm_def warningf_def)

theorem classification_error_warns_witness:
  "Stat deniedSys (filepath_Join (Path exampleDir) ''src/runhook'') = StatError ''permission denied''
   \<and> trace (mainLoopBody deniedSys exampleFlags exampleDir exampleWorld) = []
   \<and> stdout (mainLoopBody deniedSys exampleFlags exampleDir exampleWorld) = []
   \<and> exitCode (mainLoopBody deniedSys exampleFlags exampleDir exampleWorld) = 0
   \<and> diskRevision (mainLoopBody deniedSys exampleFlags exampleDir exampleWorld) (Path exampleDir) = 7
   \<and> stderr (mainLoopBody deniedSys exampleFlags exampleDir exampleWorld) =
        [''gocharm: warning: cannot determine if '' @ quote (Path exampleDir)
           @ '' is a Go charm: permission denied'']"
proof -
  have s: "Stat deniedSys (filepath_Join (Path exampleDir) ''src/runhook'') = StatError ''permission denied''"
    by (simp add: deniedSys_def)
  have e: "trace exampleWorld = []" "stderr exampleWorld = []" "stdout exampleWorld = []"
    "exitCode exampleWorld = 0" "diskRevision exampleWorld (Path exampleDir) = 7"
    by (simp_all add: exampleWorld_def initial_def)
  note th = classification_error_warns [OF s, of exampleFlags exampleWorld "[]", THEN conjunct2]
  show ?thesis
    using th s e by simp
qed

text \<open>
  The claim as stated fails in its last part: a run whose only charm cannot be
  classified ends with exit status 0, as a run without any failure does.
\<close>

theorem classification_error_exit_status:
  "Stat deniedSys ''/srv/charms/precise/mysql/src/runhook'' = StatError ''permission denied''
   \<and> fst (main deniedSys exampleFlags exampleWorld) = 0
   \<and> fst (main exampleSys exampleFlags exampleWorld) = 0
   \<and> stdout (snd (main deniedSys exampleFlags exampleWorld)) = []"
  by (simp add: evals)

subsection \<open>C7: the environment of the go tool\<close>

text \<open>
  For \<open>compile\<close> the claim holds: its environment always exists (\<open>setenv\<close> does not
  panic), \<open>GOPATH\<close> is the charm's path, a colon and the inherited \<open>GOPATH\<close>, and when
  cross-compiling \<open>CGOENABLED\<close> is \<open>false\<close>, \<open>GOARCH\<close> is \<open>amd64\<close> and \<open>GOOS\<close> is
  \<open>linux\<close>; an entry that is there is replaced, and only a missing one is appended.
\<close>

lemma compile_environment:
  "\<exists>env. compileEnv sys dir crossCompile = Some env
     \<and> Getenv env ''GOPATH'' = Path dir @ '':'' @ Getenv (Environ sys) ''GOPATH''
     \<and> (crossCompile \<longrightarrow> Getenv env ''CGOENABLED'' = ''false''
           \<and> Getenv env ''GOARCH'' = ''amd64'' \<and> Getenv env ''GOOS'' = ''linux'')
     \<and> (\<not> crossCompile \<longrightarrow>
           length env = (if \<exists>e \<in> set (Environ sys). prefix ''GOPATH='' e
                         then length (Environ sys) else length (Environ sys) + 1))"
proof -
  obtain env where e: "compileEnv sys dir crossCompile = Some env"
    using compileEnv_total [of sys dir crossCompile] by auto
  have "length env = (if \<exists>e \<in> set (Environ sys). prefix ''GOPATH='' e
                         then length (Environ sys) else length (Environ sys) + 1)"
    if "\<not> crossCompile"
    using that e by (auto simp: compileEnv_eq Let_def setenvLoop_length)
  then show ?thesis
    using e compileEnv_lookup [OF e] by auto
qed

text \<open>
  C7. The claim is about every build of a charm. The test run (\<open>testCharm\<close>) does not do
  what \<open>compile\<close> does: it appends its \<open>GOPATH\<close> entry to the inherited environment
  instead of replacing the entry that is there, so the first entry, the one a lookup
  finds, is still the inherited one; and its format asks for three strings of two, so
  the entry ends with \<open>%!s(MISSING)\<close>. This is that environment for the example charm,
  next to the one \<open>compile\<close> builds.
\<close>

theorem testCharm_environment_appended:
  "testEnv exampleSys exampleDir =
     [''HOME=/home/dev'', ''GOPATH=/home/dev/go'',
      ''GOPATH=/srv/charms/precise/mysql:/home/dev/go:%!s(MISSING)'']
   \<and> Getenv (testEnv exampleSys exampleDir) ''GOPATH'' = ''/home/dev/go''
   \<and> length (testEnv exampleSys exampleDir) = length (Environ exampleSys) + 1
   \<and> compileEnv exampleSys exampleDir False =
        Some [''HOME=/home/dev'', ''GOPATH=/srv/charms/precise/mysql:/home/dev/go'']
   \<and> trace (snd (main exampleSys testFlags exampleWorld)) =
        [Exec [''go'', ''test'', ''./...'']
           [''HOME=/home/dev'', ''GOPATH=/home/dev/go'',
            ''GOPATH=/srv/charms/precise/mysql:/home/dev/go:%!s(MISSING)''],
         RemoveAll ''/srv/charms/precise/mysql/pkg'']"
  by (simp add: evals)

subsection \<open>C8: the build cache\<close>

text \<open>
  C8. Whatever \<open>processGoCharm\<close> returns (success, a failed test run, a failed build, a
  missing binary, a failed introspection, a failed stub write), the last call it makes is
  \<open>os.RemoveAll\<close> on the \<open>pkg\<close> directory of the charm.
\<close>

theorem build_cache_removed:
  "\<exists>tr. trace (snd (processGoCharm sys fl dir w)) =
          trace w @ tr @ [RemoveAll (filepath_Join (Path dir) ''pkg'')]"
proof -
  obtain r w1 where b: "processGoCharmBody sys fl dir w = (r, w1)"
    by (cases "processGoCharmBody sys fl dir w")
  from processGoCharmBody_frame [OF b] obtain tr where "trace w1 = trace w @ tr" by blast
  then show ?thesis using b by (simp add: processGoCharm_def os_RemoveAll_def)
qed

theorem build_cache_removed_witness:
  "trace (snd (processGoCharm failingTestSys testFlags exampleDir exampleWorld)) =
     [Exec [''go'', ''test'', ''./...''] (testEnv failingTestSys exampleDir),
      RemoveAll ''/srv/charms/precise/mysql/pkg'']
   \<and> fst (processGoCharm failingTestSys testFlags exampleDir exampleWorld) =
       (False, Some ''exit status 1'')"
  using build_cache_removed [of failingTestSys testFlags exampleDir exampleWorld]
  by (simp add: evals)

subsection \<open>C9: the success line\<close>

text \<open>
  C9, as amended. Apart from a charm whose pipeline completed and whose revision file
  could not be written, the standard output of a charm's turn is: what the go tool
  printed on its own standard output (which is the run's: nothing for a charm that is not
  a Go charm), followed by exactly one line \<open>local:series/name-revision\<close> with the new
  revision when the revision was advanced, and by nothing otherwise. Warnings, errors
  and log lines never go to the standard output.
\<close>

theorem success_line_printed:
  assumes "RevisionWriteErr sys (Path dir) = None \<or> \<not> pipelineCompleted sys fl dir w"
  shows "(\<exists>tool. stdout (mainLoopBody sys fl dir w) =
             stdout w @ tool @
               (if diskRevision (mainLoopBody sys fl dir w) (Path dir) = Revision dir + 1
                   \<and> pipelineCompleted sys fl dir w
                then [''local:'' @ snd (filepath_Split (filepath_Dir (Path dir))) @ ''/''
                        @ MetaName dir @ ''-'' @ showInt (sint (Revision dir + 1))]
                else [])
           \<and> (\<forall>l \<in> set tool. \<exists>argv env. l \<in> set (procStdout (RunProc sys argv env)))
           \<and> (isGoCharm sys dir \<noteq> (True, None) \<longrightarrow> tool = []))
         \<and> stdout (warningf msg w) = stdout w \<and> stdout (errorf msg w) = stdout w
         \<and> stdout (log_Printf msg w) = stdout w"
proof -
  from mainLoopBody_stdout [of sys fl dir w] obtain tool where
    t: "stdout (mainLoopBody sys fl dir w) =
       stdout w @ tool @
         (if pipelineCompleted sys fl dir w
          then [successLine (dir\<lparr>Revision := Revision dir + 1\<rparr>)] else [])"
    "fromTool sys tool" "isGoCharm sys dir \<noteq> (True, None) \<longrightarrow> tool = []"
    by blast
  have "pipelineCompleted sys fl dir w \<Longrightarrow>
      diskRevision (mainLoopBody sys fl dir w) (Path dir) = Revision dir + 1"
    using assms by (simp add: mainLoopBody_diskRevision)
  then have "\<exists>tool. stdout (mainLoopBody sys fl dir w) =
             stdout w @ tool @
               (if diskRevision (mainLoopBody sys fl dir w) (Path dir) = Revision dir + 1
                   \<and> pipelineCompleted sys fl dir w
                then [''local:'' @ snd (filepath_Split (filepath_Dir (Path dir))) @ ''/''
                        @ MetaName dir @ ''-'' @ showInt (sint (Revision dir + 1))]
                else [])
           \<and> (\<forall>l \<in> set tool. \<exists>argv env. l \<in> set (procStdout (RunProc sys argv env)))
           \<and> (isGoCharm sys dir \<noteq> (True, None) \<longrightarrow> tool = [])"
    using t by (intro exI [of _ tool]) (auto simp: successLine_def fromTool_def)
  then show ?thesis by (simp add: warningf_def errorf_def log_Printf_def)
qed

theorem success_line_printed_witness:
  "RevisionWriteErr exampleSys (Path exampleDir) = None
   \<and> pipelineCompleted exampleSys exampleFlags exampleDir exampleWorld
   \<and> stdout (mainLoopBody exampleSys exampleFlags exampleDir exampleWorld) =
       [''local:precise/mysql-8'']
   \<and> diskRevision (mainLoopBody exampleSys exampleFlags exampleDir exampleWorld)
        (Path exampleDir) = 8"
  using success_line_printed [of exampleSys exampleDir exampleFlags exampleWorld]
  by (simp add: evals)

text \<open>
  The claim as stated fails: the line of a charm \<open>mysql\<close> of series \<open>precise\<close> advanced
  to revision 8 is \<open>local:precise/mysql-8\<close>, not \<open>precise/mysql-8\<close>; and a charm whose
  test run fails has on the standard output what \<open>go test\<close> printed there.
\<close>

theorem success_line_format:
  "stdout (snd (main exampleSys exampleFlags exampleWorld)) = [''local:precise/mysql-8'']
   \<and> ''local:precise/mysql-8'' \<noteq> ''precise/mysql-8''
   \<and> fst (main failingTestSys testFlags exampleWorld) = 1
   \<and> diskRevision (snd (main failingTestSys testFlags exampleWorld))
        ''/srv/charms/precise/mysql'' = 7
   \<and> stdout (snd (main failingTestSys testFlags exampleWorld)) = [''FAIL runhook 0.004s'']"
  by (simp add: evals)

end
